theory Spec2Isabelle
  imports Main "HOL-Library.Word"
begin

unbundle bit_operations_syntax

section \<open>Go values used by the scanner\<close>

text \<open>
  A Go \<open>string\<close> is a sequence of bytes, modelled as \<open>string\<close> (a list of 8-bit
  characters). The functions of package \<open>strings\<close> below work on bytes and are exact
  for ASCII text, which is what keywords, bucket names and hostnames are; the case
  mappings leave bytes above 0x7F unchanged.

  A run-time panic of the Go program is a value: a function that can panic returns
  \<open>go_panic + 'a\<close>, with \<open>Inl\<close> for the panic.
\<close>

datatype go_panic = IndexOutOfRange | SliceBoundsOutOfRange | SendOnClosedChannel

subsection \<open>Package strings and strconv\<close>

definition upperLetters :: string where
  "upperLetters = ''ABCDEFGHIJKLMNOPQRSTUVWXYZ''"

definition lowerLetters :: string where
  "lowerLetters = ''abcdefghijklmnopqrstuvwxyz''"

definition digitChars :: string where
  "digitChars = ''0123456789''"

definition toLowerByte :: "char \<Rightarrow> char" where
  "toLowerByte c = (case map_of (zip upperLetters lowerLetters) c of Some d \<Rightarrow> d | None \<Rightarrow> c)"

definition toUpperByte :: "char \<Rightarrow> char" where
  "toUpperByte c = (case map_of (zip lowerLetters upperLetters) c of Some d \<Rightarrow> d | None \<Rightarrow> c)"

definition ToLower :: "string \<Rightarrow> string" where
  "ToLower s = map toLowerByte s"

definition ToUpper :: "string \<Rightarrow> string" where
  "ToUpper s = map toUpperByte s"

definition isDigit :: "char \<Rightarrow> bool" where
  "isDigit c = (c \<in> set digitChars)"

text \<open>\<open>isSeparator\<close> of package strings: ASCII letters, digits and underscore do not
  separate words; every other ASCII byte does.\<close>

definition isWordByte :: "char \<Rightarrow> bool" where
  "isWordByte c = (c \<in> set digitChars \<or> c \<in> set lowerLetters \<or> c \<in> set upperLetters \<or> c = CHR ''_'')"

fun Title_from :: "char \<Rightarrow> string \<Rightarrow> string" where
  "Title_from prev [] = []"
| "Title_from prev (r # rs) =
     (if \<not> isWordByte prev then toUpperByte r # Title_from r rs else r # Title_from r rs)"

definition Title :: "string \<Rightarrow> string" where
  "Title s = Title_from (CHR '' '') s"

definition HasPrefix :: "string \<Rightarrow> string \<Rightarrow> bool" where
  "HasPrefix s p = (take (length p) s = p)"

definition TrimPrefix :: "string \<Rightarrow> string \<Rightarrow> string" where
  "TrimPrefix s p = (if HasPrefix s p then drop (length p) s else s)"

fun Contains :: "string \<Rightarrow> string \<Rightarrow> bool" where
  "Contains [] sub = (sub = [])"
| "Contains (c # cs) sub = (HasPrefix (c # cs) sub \<or> Contains cs sub)"

text \<open>\<open>strings.Replace(s, old, new, 1)\<close>: the first occurrence of \<open>old\<close> is replaced;
  an empty \<open>old\<close> matches at the start.\<close>

fun Replace1 :: "string \<Rightarrow> string \<Rightarrow> string \<Rightarrow> string" where
  "Replace1 [] old new = (if old = [] then new else [])"
| "Replace1 (c # cs) old new =
     (if HasPrefix (c # cs) old then new @ drop (length old) (c # cs)
      else c # Replace1 cs old new)"

text \<open>\<open>strings.ReplaceAll(s, old, new)\<close> for a non-empty \<open>old\<close> (the only use in the
  program: the placeholders \<open>%s\<close>, \<open>{keyword}\<close>, \<open>{region}\<close>, \<open>{project}\<close>):
  occurrences are replaced left to right without overlap. The fuel is the number of bytes
  still to scan.\<close>

fun ReplaceAll_fuel :: "nat \<Rightarrow> string \<Rightarrow> string \<Rightarrow> string \<Rightarrow> string" where
  "ReplaceAll_fuel 0 s old new = s"
| "ReplaceAll_fuel (Suc n) [] old new = []"
| "ReplaceAll_fuel (Suc n) (c # cs) old new =
     (if old \<noteq> [] \<and> HasPrefix (c # cs) old
      then new @ ReplaceAll_fuel (Suc n - length old) (drop (length old) (c # cs)) old new
      else c # ReplaceAll_fuel n cs old new)"

definition ReplaceAll :: "string \<Rightarrow> string \<Rightarrow> string \<Rightarrow> string" where
  "ReplaceAll s old new = ReplaceAll_fuel (length s) s old new"

text \<open>\<open>strconv.Itoa\<close>: decimal digits, most significant first, with a minus sign for a
  negative number.\<close>

fun natDigits :: "nat \<Rightarrow> string" where
  "natDigits n =
     (if n < 10 then [digitChars ! n] else natDigits (n div 10) @ [digitChars ! (n mod 10)])"

declare natDigits.simps [simp del]

definition Itoa :: "int \<Rightarrow> string" where
  "Itoa i = (if i < 0 then CHR ''-'' # natDigits (nat (- i)) else natDigits (nat i))"

text \<open>The slice expression \<open>s[n:]\<close> panics when \<open>n\<close> exceeds the length.\<close>

definition sliceFrom :: "nat \<Rightarrow> string \<Rightarrow> go_panic + string" where
  "sliceFrom n s = (if n \<le> length s then Inr (drop n s) else Inl SliceBoundsOutOfRange)"

section \<open>Mutation engine (package permute)\<close>

record PermuteCore =
  baseMutations :: "string list"
  regionHints :: "string \<rightharpoonup> int"
  patternHints :: "string \<rightharpoonup> int"
  yearHints :: "string list"

definition getDefaultMutations :: "string list" where
  "getDefaultMutations =
    [''prod'', ''production'', ''dev'', ''development'', ''staging'', ''stage'',
     ''test'', ''testing'', ''qa'', ''uat'', ''demo'', ''sandbox'', ''beta'', ''alpha'',
     ''live'', ''preview'', ''internal'', ''external'', ''public'', ''private'',
     ''backup'', ''backups'', ''bak'', ''archive'', ''archives'', ''old'',
     ''logs'', ''log'', ''logging'', ''audit'', ''data'', ''db'', ''database'',
     ''assets'', ''static'', ''media'', ''images'', ''img'', ''files'', ''docs'',
     ''documents'', ''downloads'', ''uploads'', ''tmp'', ''temp'', ''cache'',
     ''config'', ''configs'', ''configuration'', ''settings'',
     ''web'', ''api'', ''app'', ''apps'', ''www'', ''cdn'', ''edge'',
     ''storage'', ''store'', ''bucket'', ''blob'', ''s3'', ''gcs'', ''azure'',
     ''aws'', ''cloud'', ''infra'', ''infrastructure'',
     ''secrets'', ''secret'', ''keys'', ''key'', ''cert'', ''certs'', ''certificates'',
     ''private'', ''confidential'', ''restricted'', ''admin'', ''root'',
     ''credentials'', ''creds'', ''tokens'', ''auth'', ''authentication'',
     ''v1'', ''v2'', ''v3'', ''new'', ''legacy'', ''deprecated'',
     ''main'', ''master'', ''primary'', ''secondary'', ''replica'']"

definition NewPermuteCore :: PermuteCore where
  "NewPermuteCore =
     \<lparr>baseMutations = getDefaultMutations, regionHints = Map.empty,
      patternHints = Map.empty, yearHints = []\<rparr>"

subsection \<open>uniqueStrings\<close>

text \<open>The loop of \<open>uniqueStrings\<close>: \<open>seen\<close> is the Go map (a missing key reads as
  \<open>false\<close>), \<open>result\<close> grows by \<open>append\<close>.\<close>

fun uniqueStrings_loop :: "(string \<rightharpoonup> bool) \<Rightarrow> string list \<Rightarrow> string list \<Rightarrow> string list" where
  "uniqueStrings_loop seen result [] = result"
| "uniqueStrings_loop seen result (s # rest) =
     (if \<not> (seen s = Some True)
      then uniqueStrings_loop (seen(s \<mapsto> True)) (result @ [s]) rest
      else uniqueStrings_loop seen result rest)"

definition uniqueStrings :: "string list \<Rightarrow> string list" where
  "uniqueStrings input = uniqueStrings_loop Map.empty [] input"

subsection \<open>GenerateAdvanced\<close>

definition caseVariations :: "string \<Rightarrow> string list" where
  "caseVariations keyword = [ToLower keyword, ToUpper keyword, Title (ToLower keyword)]"

definition separators :: "string list" where
  "separators = ['''', ''-'', ''_'', ''.'']"

definition prefixSuffix :: "string list \<Rightarrow> string \<Rightarrow> string list" where
  "prefixSuffix muts keyword =
     concat (map (\<lambda>mut. concat (map (\<lambda>sep. [keyword @ sep @ mut, mut @ sep @ keyword]) separators)) muts)"

definition numberSequences :: "string \<Rightarrow> string list" where
  "numberSequences keyword =
     concat (map (\<lambda>i. [keyword @ Itoa i, keyword @ ''-'' @ Itoa i, keyword @ ''0'' @ Itoa i]) [1..10])"

definition cloudPatterns :: "string list" where
  "cloudPatterns =
     [''%s-bucket'', ''%s-storage'', ''%s-data'', ''%s-backup'', ''%s-assets'', ''%s-static'',
      ''%s-cdn'', ''%s-logs'', ''bucket-%s'', ''storage-%s'', ''data-%s'']"

definition cloudPatternResults :: "string \<Rightarrow> string list" where
  "cloudPatternResults keyword = map (\<lambda>pattern. ReplaceAll pattern ''%s'' keyword) cloudPatterns"

definition advancedEnvs :: "string list" where
  "advancedEnvs = [''prod'', ''production'', ''dev'', ''development'', ''staging'', ''test'', ''qa'', ''uat'']"

definition envCombinations :: "string \<Rightarrow> string list" where
  "envCombinations keyword =
     concat (map (\<lambda>env. [keyword @ ''-'' @ env, env @ ''-'' @ keyword, keyword @ ''.'' @ env]) advancedEnvs)"

text \<open>The year loop runs over \<open>currentYear - 3 .. currentYear + 1\<close>; \<open>year[2:]\<close> panics
  when the decimal form of the year has a single character.\<close>

fun yearCombinations :: "string \<Rightarrow> int list \<Rightarrow> go_panic + string list" where
  "yearCombinations keyword [] = Inr []"
| "yearCombinations keyword (y # ys) =
     (let year = Itoa y in
      case sliceFrom 2 year of
        Inl e \<Rightarrow> Inl e
      | Inr short \<Rightarrow>
          (case yearCombinations keyword ys of
             Inl e \<Rightarrow> Inl e
           | Inr rest \<Rightarrow> Inr ([keyword @ ''-'' @ year, keyword @ year, keyword @ ''-'' @ short] @ rest)))"

definition advancedRegions :: "string list" where
  "advancedRegions =
     [''us-east-1'', ''us-west-2'', ''eu-west-1'', ''eu-central-1'',
      ''ap-south-1'', ''ap-northeast-1'',
      ''eastus'', ''westus'', ''westeurope'',
      ''us-central1'', ''europe-west1'']"

definition regionCombinations :: "string \<Rightarrow> string list" where
  "regionCombinations keyword =
     concat (map (\<lambda>region. [keyword @ ''-'' @ region, region @ ''-'' @ keyword]) advancedRegions)"

text \<open>\<open>GenerateAdvanced\<close>; \<open>currentYear\<close> is the value of \<open>time.Now().Year()\<close>.\<close>

definition GenerateAdvanced :: "PermuteCore \<Rightarrow> int \<Rightarrow> string \<Rightarrow> go_panic + string list" where
  "GenerateAdvanced p currentYear keyword =
     (case yearCombinations keyword [currentYear - 3 .. currentYear + 1] of
        Inl e \<Rightarrow> Inl e
      | Inr years \<Rightarrow>
          Inr (uniqueStrings
                 (caseVariations keyword @ prefixSuffix (baseMutations p) keyword
                  @ numberSequences keyword @ cloudPatternResults keyword
                  @ envCombinations keyword @ years @ regionCombinations keyword)))"

subsection \<open>The patterns matched against a discovered name\<close>

text \<open>
  The regular expressions of the package, as matchers. \<open>FindAllString(name, -1)\<close>
  returns the successive non-overlapping matches, scanning from the left; at one position
  the alternatives of a group are tried in the order written. In the scanning functions
  the first argument counts the bytes of the last match that are still to be skipped.

  \<open>yearPattern\<close> is \<open>\b(20\d{2})\b\<close>: a word boundary lies between a word byte
  (letter, digit, underscore) and a non-word byte or an end of the text.
  \<open>envPattern\<close> is \<open>(?i)(prod|dev|staging|test|qa|uat|demo)\<close> and \<open>regionPattern\<close> is
  \<open>(?i)(us-east|us-west|eu-west|eu-central|ap-south|ap-northeast)[-_]?\d?\<close>; case
  is folded on ASCII letters.
\<close>

definition yearAt :: "char option \<Rightarrow> string \<Rightarrow> bool" where
  "yearAt prev s =
     (case s of
        c1 # c2 # c3 # c4 # rest \<Rightarrow>
          (case prev of None \<Rightarrow> True | Some b \<Rightarrow> \<not> isWordByte b)
          \<and> c1 = CHR ''2'' \<and> c2 = CHR ''0'' \<and> isDigit c3 \<and> isDigit c4
          \<and> (case rest of [] \<Rightarrow> True | a # _ \<Rightarrow> \<not> isWordByte a)
      | _ \<Rightarrow> False)"

fun yearPattern_scan :: "nat \<Rightarrow> char option \<Rightarrow> string \<Rightarrow> string list" where
  "yearPattern_scan k prev [] = []"
| "yearPattern_scan (Suc k) prev (c # cs) = yearPattern_scan k (Some c) cs"
| "yearPattern_scan 0 prev (c # cs) =
     (if yearAt prev (c # cs) then take 4 (c # cs) # yearPattern_scan 3 (Some c) cs
      else yearPattern_scan 0 (Some c) cs)"

definition yearPattern_FindAllString :: "string \<Rightarrow> string list" where
  "yearPattern_FindAllString name = yearPattern_scan 0 None name"

text \<open>The case-insensitive patterns are matched against the lowered text, which is
  passed along with the text itself; a match is the piece of the text itself.\<close>

fun startsWith :: "string \<Rightarrow> string \<Rightarrow> bool" where
  "startsWith [] s = True"
| "startsWith (p # ps) [] = False"
| "startsWith (p # ps) (c # cs) = (if p = c then startsWith ps cs else False)"

fun matchAlternatives :: "string list \<Rightarrow> string \<Rightarrow> string \<Rightarrow> string option" where
  "matchAlternatives [] s lowered = None"
| "matchAlternatives (a # alts) s lowered =
     (if startsWith a lowered then Some (take (length a) s)
      else matchAlternatives alts s lowered)"

definition envAlternatives :: "string list" where
  "envAlternatives = [''prod'', ''dev'', ''staging'', ''test'', ''qa'', ''uat'', ''demo'']"

definition envAt :: "string \<Rightarrow> string \<Rightarrow> string option" where
  "envAt s lowered = matchAlternatives envAlternatives s lowered"

definition regionAlternatives :: "string list" where
  "regionAlternatives = [''us-east'', ''us-west'', ''eu-west'', ''eu-central'', ''ap-south'', ''ap-northeast'']"

definition regionAt :: "string \<Rightarrow> string \<Rightarrow> string option" where
  "regionAt s lowered =
     (case matchAlternatives regionAlternatives s lowered of
        None \<Rightarrow> None
      | Some m \<Rightarrow>
          (let r1 = drop (length m) s;
               sep = (case r1 of [] \<Rightarrow> [] | c # _ \<Rightarrow> if c = CHR ''-'' \<or> c = CHR ''_'' then [c] else []);
               r2 = drop (length sep) r1;
               digit = (case r2 of [] \<Rightarrow> [] | c # _ \<Rightarrow> if isDigit c then [c] else [])
           in Some (m @ sep @ digit)))"

fun pattern_scan ::
  "(string \<Rightarrow> string \<Rightarrow> string option) \<Rightarrow> nat \<Rightarrow> string \<Rightarrow> string \<Rightarrow> string list" where
  "pattern_scan matchAt k [] lowered = []"
| "pattern_scan matchAt (Suc k) (c # cs) lowered = pattern_scan matchAt k cs (tl lowered)"
| "pattern_scan matchAt 0 (c # cs) lowered =
     (case matchAt (c # cs) lowered of
        Some m \<Rightarrow> m # pattern_scan matchAt (length m - 1) cs (tl lowered)
      | None \<Rightarrow> pattern_scan matchAt 0 cs (tl lowered))"

definition envPattern_FindAllString :: "string \<Rightarrow> string list" where
  "envPattern_FindAllString name = pattern_scan envAt 0 name (ToLower name)"

definition regionPattern_FindAllString :: "string \<Rightarrow> string list" where
  "regionPattern_FindAllString name = pattern_scan regionAt 0 name (ToLower name)"

text \<open>\<open>strconv.Atoi\<close>: an optional sign and decimal digits; an error (\<open>None\<close>) for
  anything else and for a value outside the 64-bit range.\<close>

definition digitVal :: "char \<Rightarrow> int" where
  "digitVal c = (case map_of (zip digitChars [0, 1, 2, 3, 4, 5, 6, 7, 8, 9]) c of Some d \<Rightarrow> d | None \<Rightarrow> 0)"

definition Atoi :: "string \<Rightarrow> int option" where
  "Atoi s =
     (let neg = (case s of [] \<Rightarrow> False | c # _ \<Rightarrow> c = CHR ''-'');
          signed = (case s of [] \<Rightarrow> False | c # _ \<Rightarrow> c = CHR ''-'' \<or> c = CHR ''+'');
          ds = (if signed then tl s else s);
          v = fold (\<lambda>c a. a * 10 + digitVal c) ds 0;
          r = (if neg then - v else v)
      in if ds = [] \<or> \<not> list_all isDigit ds then None
         else if r < - (2 ^ 63) \<or> 2 ^ 63 \<le> r then None
         else Some r)"

text \<open>\<open>strings.FieldsFunc\<close>: the maximal runs of bytes that are not separators.\<close>

fun FieldsFunc_from :: "(char \<Rightarrow> bool) \<Rightarrow> string \<Rightarrow> string \<Rightarrow> string list" where
  "FieldsFunc_from f cur [] = (if cur = [] then [] else [cur])"
| "FieldsFunc_from f cur (c # cs) =
     (if f c then (if cur = [] then FieldsFunc_from f [] cs else cur # FieldsFunc_from f [] cs)
      else FieldsFunc_from f (cur @ [c]) cs)"

definition FieldsFunc :: "string \<Rightarrow> (char \<Rightarrow> bool) \<Rightarrow> string list" where
  "FieldsFunc s f = FieldsFunc_from f [] s"

fun Join :: "string list \<Rightarrow> string \<Rightarrow> string" where
  "Join [] sep = []"
| "Join [x] sep = x"
| "Join (x # y # ys) sep = x @ sep @ Join (y # ys) sep"

subsection \<open>LearnFromDiscovery\<close>

text \<open>\<open>m[k]++\<close> on a Go map of integers: a missing key counts as zero.\<close>

definition increment :: "(string \<rightharpoonup> int) \<Rightarrow> string \<Rightarrow> (string \<rightharpoonup> int)" where
  "increment m k = m(k \<mapsto> (case m k of None \<Rightarrow> 0 | Some v \<Rightarrow> v) + 1)"

text \<open>The three loops thread the candidate list and the engine. Each takes the
  matches still to process.\<close>

fun learnYears :: "string \<Rightarrow> string list \<Rightarrow> string list \<times> PermuteCore \<Rightarrow> string list \<times> PermuteCore" where
  "learnYears name [] acc = acc"
| "learnYears name (year # rest) (newCandidates, p) =
     (case Atoi year of
        Some y \<Rightarrow>
          learnYears name rest
            (newCandidates @
               [Replace1 name year (Itoa (y - 1)),
                Replace1 name year (Itoa (y + 1)),
                Replace1 name year (Itoa (y + 2))],
             p\<lparr>yearHints := yearHints p @ [year]\<rparr>)
      | None \<Rightarrow> learnYears name rest (newCandidates, p))"

definition learnEnvs_names :: "string list" where
  "learnEnvs_names = [''prod'', ''dev'', ''staging'', ''test'', ''qa'', ''uat'', ''demo'', ''sandbox'']"

fun learnEnvs :: "string \<Rightarrow> string list \<Rightarrow> string list \<times> PermuteCore \<Rightarrow> string list \<times> PermuteCore" where
  "learnEnvs name [] acc = acc"
| "learnEnvs name (env0 # rest) (newCandidates, p) =
     (let env = ToLower env0 in
      learnEnvs name rest
        (newCandidates @
           map (\<lambda>newEnv. Replace1 (ToLower name) env newEnv)
               (filter (\<lambda>newEnv. newEnv \<noteq> env) learnEnvs_names),
         p\<lparr>patternHints := increment (patternHints p) env\<rparr>))"

definition learnRegions_names :: "string list" where
  "learnRegions_names =
     [''us-east-1'', ''us-east-2'', ''us-west-1'', ''us-west-2'',
      ''eu-west-1'', ''eu-west-2'', ''eu-central-1'',
      ''ap-south-1'', ''ap-northeast-1'', ''ap-southeast-1'']"

fun learnRegions :: "string \<Rightarrow> string list \<Rightarrow> string list \<times> PermuteCore \<Rightarrow> string list \<times> PermuteCore" where
  "learnRegions name [] acc = acc"
| "learnRegions name (region0 # rest) (newCandidates, p) =
     (let region = ToLower region0 in
      learnRegions name rest
        (newCandidates @
           map (\<lambda>newRegion. Replace1 (ToLower name) region newRegion)
               (filter (\<lambda>newRegion. newRegion \<noteq> region) learnRegions_names),
         p\<lparr>regionHints := increment (regionHints p) region\<rparr>))"

definition learnTemplate :: "string \<Rightarrow> PermuteCore \<Rightarrow> PermuteCore" where
  "learnTemplate name p =
     (let parts = FieldsFunc name (\<lambda>r. r = CHR ''-'' \<or> r = CHR ''_'' \<or> r = CHR ''.'') in
      if 2 \<le> length parts
      then p\<lparr>patternHints :=
               increment (patternHints p)
                 (Join (map (\<lambda>i. ''{'' @ Itoa (int i) @ ''}'') [0 ..< length parts]) ''-'')\<rparr>
      else p)"

definition LearnFromDiscovery :: "PermuteCore \<Rightarrow> string \<Rightarrow> string list \<times> PermuteCore" where
  "LearnFromDiscovery p name =
     (let s1 = learnYears name (yearPattern_FindAllString name) ([], p);
          s2 = learnEnvs name (envPattern_FindAllString name) s1;
          s3 = learnRegions name (regionPattern_FindAllString name) s2
      in (fst s3, learnTemplate name (snd s3)))"

section \<open>Network, stealth resolver and HTTP client (package net)\<close>

text \<open>
  The network is the environment of the program. A DNS lookup and an HTTP exchange are
  answered by the functions of a \<open>network\<close>, which see the traffic issued so far, so that
  the same question may get different answers at different times. The XML decoders of the
  Go library are part of the environment too; they return the listed objects with their
  sizes, or \<open>None\<close> for a body that does not parse.

  Everything the program itself changes is in the \<open>world\<close>: the resolver's cache, the
  region cache of the S3 provider, and the log of DNS queries and HTTP requests sent
  (the call counter of a fake resolver is the length of \<open>dnsQueries\<close>). The choice of
  the resolver address and the time-outs belong to the answer of the network.
\<close>

datatype lookup_reply =
    Addresses "string list"
  | DNSError bool string
  | OtherError string

datatype http_reply =
    TransportError string
  | Response int int "string \<rightharpoonup> string" string

record network =
  lookupHost :: "string list \<Rightarrow> string \<Rightarrow> lookup_reply"
  latency :: "string list \<Rightarrow> string \<Rightarrow> nat"
  httpDo :: "(string \<times> string) list \<Rightarrow> string \<times> string \<Rightarrow> http_reply"
  decodeListBucket :: "string \<Rightarrow> (string \<times> int) list option"
  decodeEnumerationResults :: "string \<Rightarrow> (string \<times> int) list option"

record world =
  cache :: "string \<rightharpoonup> bool"
  regionCache :: "string \<rightharpoonup> string"
  dnsQueries :: "string list"
  httpRequests :: "(string \<times> string) list"

record DNSResult =
  Domain :: string
  Exists :: bool
  IPs :: "string list"
  Error :: "string option"
  Latency :: nat

text \<open>\<open>DNSResolver.CheckExists\<close>. In \<open>DNSError notFound text\<close> the flag is the field
  \<open>IsNotFound\<close> of \<open>*net.DNSError\<close>.\<close>

definition CheckExists :: "network \<Rightarrow> world \<Rightarrow> string \<Rightarrow> DNSResult \<times> world" where
  "CheckExists nw w domain =
     (case cache w domain of
        Some exists \<Rightarrow>
          (\<lparr>Domain = domain, Exists = exists, IPs = [], Error = None, Latency = 0\<rparr>, w)
      | None \<Rightarrow>
          (let reply = lookupHost nw (dnsQueries w) domain;
               elapsed = latency nw (dnsQueries w) domain;
               w1 = w\<lparr>dnsQueries := dnsQueries w @ [domain]\<rparr>;
               result = \<lparr>Domain = domain, Exists = False, IPs = [], Error = None, Latency = elapsed\<rparr>
           in case reply of
                DNSError notFound text \<Rightarrow>
                  (if notFound
                   then (result\<lparr>Exists := False\<rparr>, w1\<lparr>cache := (cache w1)(domain \<mapsto> False)\<rparr>)
                   else (result\<lparr>Error := Some text\<rparr>, w1))
              | OtherError text \<Rightarrow> (result\<lparr>Error := Some text\<rparr>, w1)
              | Addresses ips \<Rightarrow>
                  (result\<lparr>Exists := True, IPs := ips\<rparr>, w1\<lparr>cache := (cache w1)(domain \<mapsto> True)\<rparr>)))"

definition ClearCache :: "world \<Rightarrow> world" where
  "ClearCache w = w\<lparr>cache := Map.empty\<rparr>"

text \<open>\<open>Client.Check\<close> sends a HEAD request and returns the status and the content
  length, or the transport error; \<open>Client.GetBody\<close> sends a GET request.\<close>

definition Client_Check :: "network \<Rightarrow> world \<Rightarrow> string \<Rightarrow> (string + int \<times> int) \<times> world" where
  "Client_Check nw w url =
     (let w1 = w\<lparr>httpRequests := httpRequests w @ [(''HEAD'', url)]\<rparr> in
      case httpDo nw (httpRequests w) (''HEAD'', url) of
        TransportError text \<Rightarrow> (Inl text, w1)
      | Response status len headers body \<Rightarrow> (Inr (status, len), w1))"

definition Client_GetBody :: "network \<Rightarrow> world \<Rightarrow> string \<Rightarrow> (string + string) \<times> world" where
  "Client_GetBody nw w url =
     (let w1 = w\<lparr>httpRequests := httpRequests w @ [(''GET'', url)]\<rparr> in
      case httpDo nw (httpRequests w) (''GET'', url) of
        TransportError text \<Rightarrow> (Inl text, w1)
      | Response status len headers body \<Rightarrow> (Inr body, w1))"

section \<open>Object-storage providers\<close>

record Result =
  URL :: string
  Provider :: string
  Status :: int
  Size :: int
  Permissions :: string
  Files :: "string list"
  ResultError :: string

definition emptyResult :: Result where
  "emptyResult =
     \<lparr>URL = [], Provider = [], Status = 0, Size = 0, Permissions = [], Files = [], ResultError = []\<rparr>"

text \<open>\<open>strings.Split(s, sep)\<close> for a non-empty separator (the program splits at
  \<open>.s3.\<close>, \<open>/\<close>, \<open>?\<close> and \<open>.blob.core.windows.net\<close>); the result always has a first
  element. \<open>strings.Trim(s, cutset)\<close> removes the leading and trailing bytes of the set.\<close>

fun Split_from :: "nat \<Rightarrow> string \<Rightarrow> string \<Rightarrow> string \<Rightarrow> string list" where
  "Split_from k cur [] sep = [cur]"
| "Split_from (Suc k) cur (c # cs) sep = Split_from k cur cs sep"
| "Split_from 0 cur (c # cs) sep =
     (if HasPrefix (c # cs) sep then cur # Split_from (length sep - 1) [] cs sep
      else Split_from 0 (cur @ [c]) cs sep)"

definition Split :: "string \<Rightarrow> string \<Rightarrow> string list" where
  "Split s sep = Split_from 0 [] s sep"

definition Trim :: "string \<Rightarrow> string \<Rightarrow> string" where
  "Trim s cutset =
     rev (dropWhile (\<lambda>c. c \<in> set cutset) (rev (dropWhile (\<lambda>c. c \<in> set cutset) s)))"

text \<open>\<open>fmt.Sprintf("%s (%d bytes)", name, size)\<close> for the first ten listed objects.\<close>

definition listFiles :: "(string \<times> int) list option \<Rightarrow> string list" where
  "listFiles decoded =
     (case decoded of
        None \<Rightarrow> []
      | Some items \<Rightarrow> map (\<lambda>(name, sz). name @ '' ('' @ Itoa sz @ '' bytes)'') (take 10 items))"

definition parseS3XMLv2 :: "network \<Rightarrow> string \<Rightarrow> string list" where
  "parseS3XMLv2 nw body = listFiles (decodeListBucket nw body)"

definition parseAzureBlobXML :: "network \<Rightarrow> string \<Rightarrow> string list" where
  "parseAzureBlobXML nw body = listFiles (decodeEnumerationResults nw body)"

subsection \<open>S3ProviderV2\<close>

definition extractBucketName :: "string \<Rightarrow> string" where
  "extractBucketName url0 =
     (let url = TrimPrefix (TrimPrefix url0 ''http://'') ''https://'' in
      if Contains url ''.s3.'' \<and> Contains url ''.amazonaws.com''
      then (case Split url ''.s3.'' of part # _ \<Rightarrow> part | [] \<Rightarrow> [])
      else if HasPrefix url ''s3.amazonaws.com/''
      then (case Split (TrimPrefix url ''s3.amazonaws.com/'') ''/'' of part # _ \<Rightarrow> part | [] \<Rightarrow> [])
      else [])"

text \<open>\<open>detectRegion\<close> asks the global endpoint with a HEAD request of its own and
  remembers a non-empty region header per bucket name.\<close>

definition detectRegion :: "network \<Rightarrow> world \<Rightarrow> string \<Rightarrow> string \<times> world" where
  "detectRegion nw w target =
     (let bucketName = extractBucketName target in
      if bucketName = [] then ([], w)
      else case regionCache w bucketName of
        Some region \<Rightarrow> (region, w)
      | None \<Rightarrow>
          (let url = ''http://'' @ bucketName @ ''.s3.amazonaws.com'';
               w1 = w\<lparr>httpRequests := httpRequests w @ [(''HEAD'', url)]\<rparr>
           in case httpDo nw (httpRequests w) (''HEAD'', url) of
                TransportError text \<Rightarrow> ([], w1)
              | Response status len headers body \<Rightarrow>
                  (let region = (case headers ''x-amz-bucket-region'' of None \<Rightarrow> [] | Some v \<Rightarrow> v) in
                   if region \<noteq> []
                   then (region, w1\<lparr>regionCache := (regionCache w1)(bucketName \<mapsto> region)\<rparr>)
                   else (region, w1))))"

text \<open>\<open>S3ProviderV2.Check\<close> returns the pair \<open>(result, err)\<close> of the Go function and
  the new world; the switch on the status is \<open>S3_classify\<close>.\<close>

definition S3_classify ::
  "network \<Rightarrow> world \<Rightarrow> string \<Rightarrow> int \<Rightarrow> int \<Rightarrow> (Result option \<times> string option) \<times> world" where
  "S3_classify nw w target status sz =
     (let result = emptyResult\<lparr>URL := target, Provider := ''AWS'', Status := status, Size := sz\<rparr> in
      if status = 200 then
        (case Client_GetBody nw w target of
           (Inr body, w1) \<Rightarrow>
             ((Some (result\<lparr>Permissions := ''PUBLIC_READ'', Files := parseS3XMLv2 nw body\<rparr>), None), w1)
         | (Inl e, w1) \<Rightarrow> ((Some (result\<lparr>Permissions := ''PUBLIC_READ''\<rparr>), None), w1))
      else if status = 204 then ((Some (result\<lparr>Permissions := ''PUBLIC_EMPTY''\<rparr>), None), w)
      else if status = 403 then ((Some (result\<lparr>Permissions := ''AUTHENTICATED''\<rparr>), None), w)
      else if status = 404 then ((None, None), w)
      else if status = 301 \<or> status = 307 then
        (case detectRegion nw w target of
           (region, w1) \<Rightarrow>
             (if region \<noteq> []
              then ((Some (result\<lparr>Permissions := ''REDIRECT'',
                                   ResultError := ''redirect to region: '' @ region\<rparr>), None), w1)
              else ((Some (result\<lparr>Permissions := ''REDIRECT''\<rparr>), None), w1)))
      else ((Some (result\<lparr>Permissions := ''UNKNOWN''\<rparr>), None), w))"

definition S3_Check :: "network \<Rightarrow> world \<Rightarrow> string \<Rightarrow> (Result option \<times> string option) \<times> world" where
  "S3_Check nw w target =
     (let bucketName = extractBucketName target in
      if bucketName = [] then ((None, Some (''could not extract bucket name from '' @ target)), w)
      else
        (let dnsHost = bucketName @ ''.s3.amazonaws.com'' in
         case CheckExists nw w dnsHost of
           (dnsResult, w1) \<Rightarrow>
             (case Error dnsResult of
                Some text \<Rightarrow>
                  ((Some (emptyResult\<lparr>URL := target, Provider := ''AWS'', ResultError := text\<rparr>), None), w1)
              | None \<Rightarrow>
                  if \<not> Exists dnsResult then ((None, None), w1)
                  else
                    (case Client_Check nw w1 target of
                       (Inl text, w2) \<Rightarrow>
                         ((Some (emptyResult\<lparr>URL := target, Provider := ''AWS'', Status := 0,
                                             ResultError := text\<rparr>), None), w2)
                     | (Inr (status, sz), w2) \<Rightarrow> S3_classify nw w2 target status sz))))"

subsection \<open>AzureBlobProviderV2\<close>

definition extractAzureInfo :: "string \<Rightarrow> string \<times> string" where
  "extractAzureInfo url0 =
     (let url = TrimPrefix (TrimPrefix url0 ''http://'') ''https://'' in
      if Contains url ''.blob.core.windows.net''
      then
        (let parts = Split url ''.blob.core.windows.net'';
             account = (case parts of part # _ \<Rightarrow> part | [] \<Rightarrow> []);
             container =
               (case parts of
                  _ # path # _ \<Rightarrow>
                    (case Split (Trim path ''/'') ''/'' of
                       first # _ \<Rightarrow>
                         (if first \<noteq> [] then (case Split first ''?'' of name # _ \<Rightarrow> name | [] \<Rightarrow> [])
                          else [])
                     | [] \<Rightarrow> [])
                | _ \<Rightarrow> [])
         in (account, container))
      else ([], []))"

definition Azure_classify ::
  "network \<Rightarrow> world \<Rightarrow> string \<Rightarrow> string \<Rightarrow> string \<Rightarrow> int \<Rightarrow> int
     \<Rightarrow> (Result option \<times> string option) \<times> world" where
  "Azure_classify nw w target checkURL containerName status sz =
     (let result = emptyResult\<lparr>URL := target, Provider := ''Azure'', Status := status, Size := sz\<rparr> in
      if status = 200 then
        (case Client_GetBody nw w checkURL of
           (Inr body, w1) \<Rightarrow>
             ((Some (result\<lparr>Permissions := ''PUBLIC_LIST'', Files := parseAzureBlobXML nw body\<rparr>), None), w1)
         | (Inl e, w1) \<Rightarrow> ((Some (result\<lparr>Permissions := ''PUBLIC_LIST''\<rparr>), None), w1))
      else if status = 404 then
        (if containerName = [] then ((None, None), w)
         else ((Some (result\<lparr>Permissions := ''CONTAINER_NOT_FOUND''\<rparr>), None), w))
      else if status = 403 then ((Some (result\<lparr>Permissions := ''PRIVATE''\<rparr>), None), w)
      else if status = 409 then ((Some (result\<lparr>Permissions := ''DISABLED''\<rparr>), None), w)
      else ((Some (result\<lparr>Permissions := ''UNKNOWN''\<rparr>), None), w))"

text \<open>The URL probed in phase 2: a target that names a container without the listing
  query is rewritten to the container listing.\<close>

definition Azure_checkURL :: "string \<Rightarrow> string \<Rightarrow> string \<Rightarrow> string" where
  "Azure_checkURL target dnsHost containerName =
     (if containerName \<noteq> [] \<and> \<not> Contains target ''restype=container''
      then ''http://'' @ dnsHost @ ''/'' @ containerName @ ''?restype=container&comp=list''
      else target)"

definition Azure_Check :: "network \<Rightarrow> world \<Rightarrow> string \<Rightarrow> (Result option \<times> string option) \<times> world" where
  "Azure_Check nw w target =
     (case extractAzureInfo target of
        (accountName, containerName) \<Rightarrow>
          if accountName = [] then ((None, Some (''could not extract account from '' @ target)), w)
          else
            (let dnsHost = accountName @ ''.blob.core.windows.net'' in
             case CheckExists nw w dnsHost of
               (dnsResult, w1) \<Rightarrow>
                 (case Error dnsResult of
                    Some text \<Rightarrow>
                      ((Some (emptyResult\<lparr>URL := target, Provider := ''Azure'', ResultError := text\<rparr>), None), w1)
                  | None \<Rightarrow>
                      if \<not> Exists dnsResult then ((None, None), w1)
                      else
                        (let checkURL = Azure_checkURL target dnsHost containerName
                         in case Client_Check nw w1 checkURL of
                              (Inl text, w2) \<Rightarrow>
                                ((Some (emptyResult\<lparr>URL := target, Provider := ''Azure'',
                                                    ResultError := text\<rparr>), None), w2)
                            | (Inr (status, sz), w2) \<Rightarrow>
                                Azure_classify nw w2 target checkURL containerName status sz))))"

section \<open>Catalog-driven enumerator (package providers)\<close>

record Config =
  Mutations :: "string list"
  Resolvers :: "string list"
  Threads :: int
  Timeout :: int

record CloudService =
  ServiceProvider :: string
  ServiceType :: string
  DomainPattern :: string
  Endpoints :: "string list"
  ServiceSeverity :: string

record CloudTarget =
  TargetURL :: string
  Service :: CloudService
  TargetRegion :: string

record CloudAssetResult =
  AssetURL :: string
  AssetProvider :: string
  AssetServiceType :: string
  AssetRegion :: string
  AssetStatus :: int
  AssetSeverity :: string
  Accessible :: bool
  Headers :: "string \<rightharpoonup> string"
  AssetError :: string

text \<open>The package-level tables \<open>AllCloudServices\<close>, \<open>AWSRegions\<close>, \<open>AzureRegions\<close> and
  \<open>GCPRegions\<close> are a parameter of the generator: no property below depends on their
  entries.\<close>

record catalog =
  AllCloudServices :: "CloudService list"
  AWSRegions :: "string list"
  AzureRegions :: "string list"
  GCPRegions :: "string list"

text \<open>\<open>GenerateAllTargets\<close> for a context that is not cancelled: the targets sent to the
  output channel, in order. \<open>targetsOfService\<close> is the body of the loop over the catalog.\<close>

definition targetsOfService :: "catalog \<Rightarrow> Config \<Rightarrow> string \<Rightarrow> CloudService \<Rightarrow> CloudTarget list" where
  "targetsOfService cat config keyword service =
     (let url = ReplaceAll (DomainPattern service) ''{keyword}'' keyword;
          base =
            (if Contains url ''{region}'' then
               (let regions =
                      (if ServiceProvider service = ''AWS'' then AWSRegions cat
                       else if ServiceProvider service = ''Azure'' then AzureRegions cat
                       else if ServiceProvider service = ''GCP'' then GCPRegions cat
                       else [''us-east-1''])
                in map (\<lambda>region.
                          \<lparr>TargetURL = ''https://'' @ ReplaceAll url ''{region}'' region,
                           Service = service, TargetRegion = region\<rparr>) regions)
             else if Contains url ''{project}'' then
               [\<lparr>TargetURL = ''https://'' @ ReplaceAll url ''{project}'' keyword,
                 Service = service, TargetRegion = []\<rparr>]
             else [\<lparr>TargetURL = ''https://'' @ url, Service = service, TargetRegion = []\<rparr>]);
          mutated =
            map (\<lambda>mut.
                   (let mutKeyword = keyword @ ''-'' @ mut;
                        mutURL = ReplaceAll
                                   (ReplaceAll (ReplaceAll (DomainPattern service) ''{keyword}'' mutKeyword)
                                      ''{region}'' ''us-east-1'')
                                   ''{project}'' mutKeyword
                    in \<lparr>TargetURL = ''https://'' @ mutURL, Service = service, TargetRegion = []\<rparr>))
                (Mutations config)
      in base @ mutated)"

definition GenerateAllTargets :: "catalog \<Rightarrow> Config \<Rightarrow> string \<Rightarrow> CloudTarget list" where
  "GenerateAllTargets cat config keyword =
     concat (map (targetsOfService cat config keyword) (AllCloudServices cat))"

text \<open>\<open>CheckTarget\<close>: the DNS pre-filter on the hostname of the URL, then one HEAD
  request and the switch on its status (\<open>CheckTarget_classify\<close>).\<close>

definition CheckTarget_classify :: "CloudAssetResult \<Rightarrow> int \<Rightarrow> CloudAssetResult option" where
  "CheckTarget_classify result0 status =
     (let result = result0\<lparr>AssetStatus := status\<rparr> in
      if status = 200 \<or> status = 201 \<or> status = 202 \<or> status = 204
      then Some (result\<lparr>Accessible := True\<rparr>)
      else if status = 301 \<or> status = 302 \<or> status = 307 \<or> status = 308
      then Some (result\<lparr>Accessible := True\<rparr>)
      else if status = 401 \<or> status = 403
      then Some (result\<lparr>Accessible := False\<rparr>)
      else if status = 404 then None
      else Some (result\<lparr>Accessible := False\<rparr>))"

definition CheckTarget_hostname :: "string \<Rightarrow> string" where
  "CheckTarget_hostname url =
     (case Split (TrimPrefix (TrimPrefix url ''https://'') ''http://'') ''/'' of
        h # _ \<Rightarrow> h | [] \<Rightarrow> [])"

definition CheckTarget :: "network \<Rightarrow> world \<Rightarrow> CloudTarget \<Rightarrow> CloudAssetResult option \<times> world" where
  "CheckTarget nw w target =
     (let result = \<lparr>AssetURL = TargetURL target,
                    AssetProvider = ServiceProvider (Service target),
                    AssetServiceType = ServiceType (Service target),
                    AssetRegion = TargetRegion target,
                    AssetStatus = 0,
                    AssetSeverity = ServiceSeverity (Service target),
                    Accessible = False,
                    Headers = Map.empty,
                    AssetError = []\<rparr>;
          hostname = CheckTarget_hostname (TargetURL target)
      in case CheckExists nw w hostname of
           (dnsResult, w1) \<Rightarrow>
             if \<not> Exists dnsResult then (None, w1)
             else
               (case Client_Check nw w1 (TargetURL target) of
                  (Inl text, w2) \<Rightarrow> (Some (result\<lparr>AssetError := text\<rparr>), w2)
                | (Inr (status, len), w2) \<Rightarrow> (CheckTarget_classify result status, w2)))"

section \<open>Orchestration engines (package engine)\<close>

record FullCloudResult =
  FullURL :: string
  FullProvider :: string
  FullServiceType :: string
  FullRegion :: string
  FullStatus :: int
  FullPermissions :: string
  FullSeverity :: string
  FullAccessible :: bool
  FullFiles :: "string list"
  Timestamp :: string
  Category :: string

record ScanResult =
  ScanProvider :: string
  ScanURL :: string
  ScanStatus :: int
  ScanPermissions :: string
  ScanFiles :: "string list"
  ScanRegion :: string
  ScanTimestamp :: string

text \<open>
  The state shared by the goroutines of one engine: the two \<open>atomic.Int64\<close> counters,
  the buffered \<open>results\<close> channel, the slice \<open>allResults\<close> of the collector and the
  mutation engine. \<open>crashed\<close> records an unrecovered panic, which ends the process.
  The counters are 64-bit words read as signed integers (\<open>sint\<close>).
\<close>

record 'r engine =
  checked :: "64 word"
  found :: "64 word"
  results :: "'r list"
  allResults :: "'r list"
  permuter :: PermuteCore
  crashed :: "go_panic option"

definition newEngine :: "'r engine" where
  "newEngine =
     \<lparr>checked = 0, found = 0, results = [], allResults = [], permuter = NewPermuteCore,
      crashed = None\<rparr>"

definition containsAny :: "string \<Rightarrow> string list \<Rightarrow> bool" where
  "containsAny s substrs = list_ex (\<lambda>sub. Contains s sub) substrs"

definition categorizeService :: "string \<Rightarrow> string" where
  "categorizeService serviceType =
     (if containsAny serviceType [''S3'', ''Blob'', ''GCS'', ''OSS'', ''Spaces'', ''R2'', ''Object Storage'']
      then ''storage''
      else if containsAny serviceType
                [''RDS'', ''SQL'', ''Cosmos'', ''Firestore'', ''DynamoDB'', ''Redis'', ''Cache'',
                 ''Spanner'', ''BigQuery'']
      then ''database''
      else if containsAny serviceType
                [''Lambda'', ''Functions'', ''Cloud Run'', ''App Engine'', ''Beanstalk'', ''App Service'']
      then ''compute''
      else if containsAny serviceType [''API'', ''Gateway'', ''AppSync'', ''Endpoints''] then ''api''
      else if containsAny serviceType [''CDN'', ''CloudFront'', ''Front Door'', ''Edge''] then ''cdn''
      else if containsAny serviceType [''EKS'', ''AKS'', ''GKE'', ''Container'', ''ECR'', ''ACR'']
      then ''container''
      else if containsAny serviceType [''Key Vault'', ''Secrets'', ''KMS''] then ''secrets''
      else ''other'')"


subsection \<open>FullCloudRecon.ScanAll\<close>

text \<open>The keywords of the run and the ones handed to the catalog generator:
  \<open>allKeywords[:min(len(allKeywords), 50)]\<close>. \<open>ScanAll_cloudWork\<close> is what the generator
  goroutine sends to the \<open>cloudWork\<close> channel.\<close>

definition ScanAll_allKeywords :: "string \<Rightarrow> string list \<Rightarrow> string list" where
  "ScanAll_allKeywords keyword mutations = [keyword] @ mutations"

definition ScanAll_catalogKeywords :: "string \<Rightarrow> string list \<Rightarrow> string list" where
  "ScanAll_catalogKeywords keyword mutations =
     take (min (length (ScanAll_allKeywords keyword mutations)) 50) (ScanAll_allKeywords keyword mutations)"

definition ScanAll_cloudWork :: "catalog \<Rightarrow> Config \<Rightarrow> string \<Rightarrow> string list \<Rightarrow> CloudTarget list" where
  "ScanAll_cloudWork cat config keyword mutations =
     concat (map (GenerateAllTargets cat config) (ScanAll_catalogKeywords keyword mutations))"

text \<open>One iteration of a worker. The outcome of the provider's check and the time stamp
  are given; the worker adds one to \<open>checked\<close> and then sends what it reports.\<close>

definition cloudWorker_report :: "CloudAssetResult option \<Rightarrow> string \<Rightarrow> FullCloudResult option" where
  "cloudWorker_report checkResult now =
     (case checkResult of
        None \<Rightarrow> None
      | Some result \<Rightarrow>
          if AssetStatus result = 200 \<or> AssetStatus result = 403 \<or> AssetStatus result = 401
          then Some \<lparr>FullURL = AssetURL result,
                     FullProvider = AssetProvider result,
                     FullServiceType = AssetServiceType result,
                     FullRegion = AssetRegion result,
                     FullStatus = AssetStatus result,
                     FullPermissions =
                       (if AssetStatus result = 403 \<or> AssetStatus result = 401 then ''PROTECTED''
                        else if AssetStatus result = 200 then ''ACCESSIBLE'' else []),
                     FullSeverity = AssetSeverity result,
                     FullAccessible = Accessible result,
                     FullFiles = [],
                     Timestamp = now,
                     Category = categorizeService (AssetServiceType result)\<rparr>
          else None)"

definition cloudWorker :: "FullCloudResult engine \<Rightarrow> CloudAssetResult option \<Rightarrow> string \<Rightarrow> FullCloudResult engine" where
  "cloudWorker e checkResult now =
     (let e1 = e\<lparr>checked := checked e + 1\<rparr> in
      case cloudWorker_report checkResult now of
        None \<Rightarrow> e1
      | Some fullResult \<Rightarrow> e1\<lparr>results := results e1 @ [fullResult]\<rparr>)"







subsection \<open>OmniStore.Scan\<close>

definition scanResultOf :: "Result \<Rightarrow> string \<Rightarrow> ScanResult" where
  "scanResultOf result now =
     \<lparr>ScanProvider = Provider result, ScanURL = URL result, ScanStatus = Status result,
      ScanPermissions = Permissions result, ScanFiles = Files result, ScanRegion = [],
      ScanTimestamp = now\<rparr>"


definition omniS3Worker :: "ScanResult engine \<Rightarrow> Result option \<times> string option \<Rightarrow> string \<Rightarrow> ScanResult engine" where
  "omniS3Worker e outcome now =
     (let e1 = e\<lparr>checked := checked e + 1\<rparr> in
      case outcome of
        (Some result, None) \<Rightarrow>
          (let e2 = e1\<lparr>results := results e1 @ [scanResultOf result now]\<rparr> in
           case LearnFromDiscovery (permuter e2) (URL result) of
             (newCandidates, p) \<Rightarrow>
               if newCandidates = [] then e2\<lparr>permuter := p\<rparr>
               else e2\<lparr>permuter := p, crashed := Some SendOnClosedChannel\<rparr>)
      | _ \<Rightarrow> e1)"







section \<open>CIDR attribution index (package netmapper)\<close>

text \<open>
  A \<open>net.IP\<close> is a byte slice; \<open>nil\<close> results of \<open>To4\<close> and \<open>To16\<close> are \<open>None\<close>.
  Of an \<open>*net.IPNet\<close> the program reads the network address and the number of leading
  ones of the mask. The parsers \<open>net.ParseCIDR\<close> and \<open>net.ParseIP\<close> of the Go library
  are a parameter (\<open>netlib\<close>); \<open>None\<close> is a parse error.
\<close>

type_synonym IP = "8 word list"

record IPNet =
  NetIP :: IP
  MaskOnes :: nat

record netlib =
  ParseCIDR :: "string \<Rightarrow> IPNet option"
  ParseIP :: "string \<Rightarrow> IP option"

record CloudInfo =
  InfoProvider :: string
  InfoService :: string
  InfoRegion :: string
  NetworkType :: string
  CIDR :: string

definition v4InV6Prefix :: IP where
  "v4InV6Prefix = [0, 0, 0, 0, 0, 0, 0, 0, 0, 0, 255, 255]"

definition To4 :: "IP \<Rightarrow> IP option" where
  "To4 ip =
     (if length ip = 4 then Some ip
      else if length ip = 16 \<and> take 12 ip = v4InV6Prefix then Some (drop 12 ip)
      else None)"

definition To16 :: "IP \<Rightarrow> IP option" where
  "To16 ip =
     (if length ip = 4 then Some (v4InV6Prefix @ ip)
      else if length ip = 16 then Some ip
      else None)"

text \<open>\<open>ipToBits\<close> returns the result of \<open>To16\<close> when \<open>To4\<close> fails; a \<open>nil\<close> slice has
  no bytes.\<close>

definition ipToBits :: "IP \<Rightarrow> IP" where
  "ipToBits ip =
     (case To4 ip of
        Some ip4 \<Rightarrow> ip4
      | None \<Rightarrow> (case To16 ip of Some ip16 \<Rightarrow> ip16 | None \<Rightarrow> []))"

text \<open>The expression \<open>(bits[i/8] >> (7 - i%8)) & 1\<close>; the index is checked by the caller.\<close>

definition bitOf :: "IP \<Rightarrow> nat \<Rightarrow> 8 word" where
  "bitOf bits i = (drop_bit (7 - i mod 8) (bits ! (i div 8))) AND 1"

datatype TrieNode = TrieNode (child0: "TrieNode option") (child1: "TrieNode option") (info: "CloudInfo option")

record IPTrie =
  root :: TrieNode
  count :: int

definition emptyNode :: TrieNode where
  "emptyNode = TrieNode None None None"

definition NewIPTrie :: IPTrie where
  "NewIPTrie = \<lparr>root = emptyNode, count = 0\<rparr>"

definition children :: "TrieNode \<Rightarrow> 8 word \<Rightarrow> TrieNode option" where
  "children node b = (if b = 0 then child0 node else child1 node)"

definition setChild :: "TrieNode \<Rightarrow> 8 word \<Rightarrow> TrieNode \<Rightarrow> TrieNode" where
  "setChild node b c =
     (if b = 0 then TrieNode (Some c) (child1 node) (info node)
      else TrieNode (child0 node) (Some c) (info node))"

text \<open>The loop of \<open>Insert\<close> from bit \<open>i\<close>, with \<open>k\<close> bits still to walk: it creates the
  missing child, descends, and stores the metadata at the node it ends on. Reading a bit
  beyond the address panics.\<close>

fun Insert_walk :: "IP \<Rightarrow> CloudInfo \<Rightarrow> nat \<Rightarrow> nat \<Rightarrow> TrieNode \<Rightarrow> go_panic + TrieNode" where
  "Insert_walk bits v 0 i node = Inr (TrieNode (child0 node) (child1 node) (Some v))"
| "Insert_walk bits v (Suc k) i node =
     (if i div 8 < length bits then
        (let b = bitOf bits i;
             next = (case children node b of None \<Rightarrow> emptyNode | Some c \<Rightarrow> c)
         in case Insert_walk bits v k (Suc i) next of
              Inl e \<Rightarrow> Inl e
            | Inr c \<Rightarrow> Inr (setChild node b c))
      else Inl IndexOutOfRange)"

definition Insert :: "netlib \<Rightarrow> IPTrie \<Rightarrow> string \<Rightarrow> CloudInfo \<Rightarrow> go_panic + IPTrie" where
  "Insert lib t cidr v =
     (case ParseCIDR lib cidr of
        None \<Rightarrow> Inr t
      | Some ipnet \<Rightarrow>
          (let bits = ipToBits (NetIP ipnet);
               ones = MaskOnes ipnet
           in case Insert_walk bits v ones 0 (root t) of
                Inl e \<Rightarrow> Inl e
              | Inr r \<Rightarrow> Inr \<lparr>root = r, count = count t + 1\<rparr>))"

text \<open>\<open>Lookup\<close>. \<open>IP.String\<close> prints the dotted form, the only one with a dot, exactly
  when \<open>To4\<close> succeeds, which is the test \<open>isIPv4\<close>. The loop remembers the metadata of
  the nodes it passes; \<open>Lookup_walk\<close> ends with the check of the final node.\<close>

definition remember :: "TrieNode \<Rightarrow> CloudInfo option \<Rightarrow> CloudInfo option" where
  "remember node lastMatch = (case info node of Some v \<Rightarrow> Some v | None \<Rightarrow> lastMatch)"

fun Lookup_walk :: "IP \<Rightarrow> nat \<Rightarrow> nat \<Rightarrow> TrieNode \<Rightarrow> CloudInfo option \<Rightarrow> CloudInfo option" where
  "Lookup_walk bits 0 i node lastMatch = remember node lastMatch"
| "Lookup_walk bits (Suc k) i node lastMatch =
     (let lastMatch1 = remember node lastMatch in
      case children node (bitOf bits i) of
        None \<Rightarrow> remember node lastMatch1
      | Some c \<Rightarrow> Lookup_walk bits k (Suc i) c lastMatch1)"

definition Lookup_bits :: "IP \<Rightarrow> IP" where
  "Lookup_bits ip16 =
     (let isIPv4 = (To4 ip16 \<noteq> None) in
      if isIPv4 then (case To4 ip16 of Some ip4 \<Rightarrow> ip4 | None \<Rightarrow> drop 12 ip16)
      else ip16)"

definition Lookup :: "IPTrie \<Rightarrow> IP \<Rightarrow> CloudInfo option" where
  "Lookup t ip =
     (case To16 ip of
        None \<Rightarrow> None
      | Some ip16 \<Rightarrow>
          (let bits = Lookup_bits ip16 in
           Lookup_walk bits (length bits * 8) 0 (root t) None))"

subsection \<open>NetMapper\<close>

record NetMapper =
  aws :: IPTrie
  azure :: IPTrie
  gcp :: IPTrie

definition NewNetMapper :: NetMapper where
  "NewNetMapper = \<lparr>aws = NewIPTrie, azure = NewIPTrie, gcp = NewIPTrie\<rparr>"

definition NetMapper_Lookup :: "netlib \<Rightarrow> NetMapper \<Rightarrow> string \<Rightarrow> CloudInfo option" where
  "NetMapper_Lookup lib m ipStr =
     (case ParseIP lib ipStr of
        None \<Rightarrow> None
      | Some ip \<Rightarrow>
          (case Lookup (aws m) ip of
             Some v \<Rightarrow> Some v
           | None \<Rightarrow>
               (case Lookup (azure m) ip of
                  Some v \<Rightarrow> Some v
                | None \<Rightarrow>
                    (case Lookup (gcp m) ip of
                       Some v \<Rightarrow> Some v
                     | None \<Rightarrow> None))))"

text \<open>
  The dataset files. \<open>os.ReadFile\<close> followed by \<open>json.Unmarshal\<close> gives a read error, a
  decoding error or the decoded document; the \<open>datasets\<close> say which, per path.
\<close>

datatype 'a file_result = ReadError string | UnmarshalError string | Document 'a

record awsPrefix =
  AwsPrefix :: string
  AwsRegion :: string
  AwsService :: string
  NetworkBorderGroup :: string

record awsData =
  Prefixes :: "awsPrefix list"
  IPv6Prefixes :: "awsPrefix list"

record azureValue =
  AzureRegion :: string
  Platform :: string
  SystemService :: string
  AddressPrefixes :: "string list"

record gcpPrefix =
  IPv4Prefix :: string
  IPv6Prefix :: string
  GcpService :: string
  Scope :: string

record datasets =
  awsFile :: "string \<Rightarrow> awsData file_result"
  azureFile :: "string \<Rightarrow> azureValue list file_result"
  gcpFile :: "string \<Rightarrow> gcpPrefix list file_result"

text \<open>A loader inserts the entries of its document in order; \<open>Insert_all\<close> is that loop
  over the pairs of CIDR text and metadata.\<close>

fun Insert_all :: "netlib \<Rightarrow> IPTrie \<Rightarrow> (string \<times> CloudInfo) list \<Rightarrow> go_panic + IPTrie" where
  "Insert_all lib t [] = Inr t"
| "Insert_all lib t ((cidr, v) # rest) =
     (case Insert lib t cidr v of Inl e \<Rightarrow> Inl e | Inr t1 \<Rightarrow> Insert_all lib t1 rest)"

definition awsEntries :: "awsData \<Rightarrow> (string \<times> CloudInfo) list" where
  "awsEntries doc =
     map (\<lambda>p. (AwsPrefix p,
               \<lparr>InfoProvider = ''AWS'', InfoService = AwsService p, InfoRegion = AwsRegion p,
                NetworkType = NetworkBorderGroup p, CIDR = AwsPrefix p\<rparr>))
         (Prefixes doc @ IPv6Prefixes doc)"

definition azureEntries :: "azureValue list \<Rightarrow> (string \<times> CloudInfo) list" where
  "azureEntries doc =
     concat (map (\<lambda>v. map (\<lambda>prefix.
                             (prefix,
                              \<lparr>InfoProvider = ''Azure'', InfoService = SystemService v,
                               InfoRegion = AzureRegion v, NetworkType = Platform v, CIDR = prefix\<rparr>))
                          (AddressPrefixes v)) doc)"

definition gcpEntries :: "gcpPrefix list \<Rightarrow> (string \<times> CloudInfo) list" where
  "gcpEntries doc =
     concat (map (\<lambda>p.
                    (if IPv4Prefix p \<noteq> []
                     then [(IPv4Prefix p,
                            \<lparr>InfoProvider = ''GCP'', InfoService = GcpService p, InfoRegion = Scope p,
                             NetworkType = ''Google Cloud'', CIDR = IPv4Prefix p\<rparr>)]
                     else [])
                    @ (if IPv6Prefix p \<noteq> []
                       then [(IPv6Prefix p,
                              \<lparr>InfoProvider = ''GCP'', InfoService = GcpService p, InfoRegion = Scope p,
                               NetworkType = ''Google Cloud'', CIDR = IPv6Prefix p\<rparr>)]
                       else [])) doc)"

text \<open>Each loader returns the mapper and the error of the Go function (\<open>None\<close> for
  \<open>nil\<close>), or the panic of an insert.\<close>

definition loadAWS :: "netlib \<Rightarrow> datasets \<Rightarrow> NetMapper \<Rightarrow> string \<Rightarrow> go_panic + NetMapper \<times> string option" where
  "loadAWS lib fs m path =
     (case awsFile fs path of
        ReadError text \<Rightarrow> Inr (m, Some text)
      | UnmarshalError text \<Rightarrow> Inr (m, Some text)
      | Document doc \<Rightarrow>
          (case Insert_all lib (aws m) (awsEntries doc) of
             Inl e \<Rightarrow> Inl e
           | Inr t \<Rightarrow> Inr (m\<lparr>aws := t\<rparr>, None)))"

definition loadAzure :: "netlib \<Rightarrow> datasets \<Rightarrow> NetMapper \<Rightarrow> string \<Rightarrow> go_panic + NetMapper \<times> string option" where
  "loadAzure lib fs m path =
     (case azureFile fs path of
        ReadError text \<Rightarrow> Inr (m, Some text)
      | UnmarshalError text \<Rightarrow> Inr (m, Some text)
      | Document doc \<Rightarrow>
          (case Insert_all lib (azure m) (azureEntries doc) of
             Inl e \<Rightarrow> Inl e
           | Inr t \<Rightarrow> Inr (m\<lparr>azure := t\<rparr>, None)))"

definition loadGCP :: "netlib \<Rightarrow> datasets \<Rightarrow> NetMapper \<Rightarrow> string \<Rightarrow> go_panic + NetMapper \<times> string option" where
  "loadGCP lib fs m path =
     (case gcpFile fs path of
        ReadError text \<Rightarrow> Inr (m, Some text)
      | UnmarshalError text \<Rightarrow> Inr (m, Some text)
      | Document doc \<Rightarrow>
          (case Insert_all lib (gcp m) (gcpEntries doc) of
             Inl e \<Rightarrow> Inl e
           | Inr t \<Rightarrow> Inr (m\<lparr>gcp := t\<rparr>, None)))"

text \<open>\<open>LoadFromDirectory\<close> prints the error of a loader and goes on; it returns \<open>nil\<close>.\<close>

definition LoadFromDirectory ::
  "netlib \<Rightarrow> datasets \<Rightarrow> NetMapper \<Rightarrow> string \<Rightarrow> go_panic + NetMapper \<times> string option" where
  "LoadFromDirectory lib fs m dataDir =
     (case loadAWS lib fs m (dataDir @ ''/aws_cloud.json'') of
        Inl e \<Rightarrow> Inl e
      | Inr (m1, err1) \<Rightarrow>
          (case loadAzure lib fs m1 (dataDir @ ''/azure_cloud.json'') of
             Inl e \<Rightarrow> Inl e
           | Inr (m2, err2) \<Rightarrow>
               (case loadGCP lib fs m2 (dataDir @ ''/gcp_cloud.json'') of
                  Inl e \<Rightarrow> Inl e
                | Inr (m3, err3) \<Rightarrow> Inr (m3, None))))"

section \<open>Fixtures for concrete runs\<close>

text \<open>A fresh resolver and provider (\<open>NewDNSResolver\<close>, \<open>NewS3ProviderV2\<close>: empty
  caches, no traffic yet), and a fake network that answers every lookup and every request
  by fixed functions of the name and of the request.\<close>

definition newWorld :: world where
  "newWorld = \<lparr>cache = Map.empty, regionCache = Map.empty, dnsQueries = [], httpRequests = []\<rparr>"

definition fakeNetwork ::
  "(string \<Rightarrow> lookup_reply) \<Rightarrow> (string \<times> string \<Rightarrow> http_reply) \<Rightarrow> network" where
  "fakeNetwork dns http =
     \<lparr>lookupHost = (\<lambda>history. dns), latency = (\<lambda>history domain. 0), httpDo = (\<lambda>history. http),
      decodeListBucket = (\<lambda>body. None), decodeEnumerationResults = (\<lambda>body. None)\<rparr>"

text \<open>Three fake networks: one where no name exists; one where every name resolves and
  every request is answered with the given status; one where the name
  \<open>gone.example.com\<close> does not exist and every other lookup times out.\<close>

definition nxdomainNetwork :: network where
  "nxdomainNetwork =
     fakeNetwork (\<lambda>domain. DNSError True ''no such host'') (\<lambda>request. TransportError ''connection refused'')"

definition statusNetwork :: "int \<Rightarrow> network" where
  "statusNetwork status =
     fakeNetwork (\<lambda>domain. Addresses [''203.0.113.7'']) (\<lambda>request. Response status 0 Map.empty [])"

definition flakyNetwork :: network where
  "flakyNetwork =
     fakeNetwork
       (\<lambda>domain. if domain = ''gone.example.com'' then DNSError True ''no such host''
                  else DNSError False ''i/o timeout'')
       (\<lambda>request. TransportError ''connection refused'')"

text \<open>A catalog target for the keyword \<open>acme\<close>, and the first fifty mutations that
  \<open>GenerateAdvanced\<close> returns for that keyword with the default mutation table.\<close>

definition cloudFrontTarget :: CloudTarget where
  "cloudFrontTarget =
     \<lparr>TargetURL = ''https://acme.cloudfront.net'',
      Service = \<lparr>ServiceProvider = ''AWS'', ServiceType = ''CloudFront'',
                 DomainPattern = ''{keyword}.cloudfront.net'', Endpoints = [],
                 ServiceSeverity = ''MEDIUM''\<rparr>,
      TargetRegion = []\<rparr>"

definition acmeFirst50 :: "string list" where
  "acmeFirst50 =
     [''acme'', ''ACME'', ''Acme'', ''acmeprod'', ''prodacme'', ''acme-prod'',
      ''prod-acme'', ''acme_prod'', ''prod_acme'', ''acme.prod'', ''prod.acme'',
      ''acmeproduction'', ''productionacme'', ''acme-production'', ''production-acme'',
      ''acme_production'', ''production_acme'', ''acme.production'', ''production.acme'',
      ''acmedev'', ''devacme'', ''acme-dev'', ''dev-acme'', ''acme_dev'', ''dev_acme'',
      ''acme.dev'', ''dev.acme'', ''acmedevelopment'', ''developmentacme'',
      ''acme-development'', ''development-acme'', ''acme_development'',
      ''development_acme'', ''acme.development'', ''development.acme'', ''acmestaging'',
      ''stagingacme'', ''acme-staging'', ''staging-acme'', ''acme_staging'',
      ''staging_acme'', ''acme.staging'', ''staging.acme'', ''acmestage'', ''stageacme'',
      ''acme-stage'', ''stage-acme'', ''acme_stage'', ''stage_acme'', ''acme.stage'']"

text \<open>A Finding of the S3 provider for a readable bucket, and a sample interleaving of
  worker and collector steps for each engine.\<close>

definition acmeBucketResult :: Result where
  "acmeBucketResult =
     \<lparr>URL = ''http://acme.s3.amazonaws.com'', Provider = ''AWS'', Status = 200, Size = 0,
      Permissions = ''PUBLIC_READ'', Files = [], ResultError = []\<rparr>"



text \<open>
  A stand-in for the parsers of package \<open>net\<close> that knows a few texts: it returns for
  each what \<open>net.ParseCIDR\<close> and \<open>net.ParseIP\<close> return (the network address in 4 bytes
  for an IPv4 prefix and in 16 bytes for an IPv6 prefix, an address in 16 bytes) and a
  parse error for every other text. Three dataset files with overlapping ranges in the
  directory \<open>data\<close>; a directory \<open>broken\<close> where the AWS file is missing and the
  GCP file does not decode; a directory \<open>overlap\<close> with the AWS file of \<open>data\<close>, an
  Azure file with the range \<open>38.0.0.0/8\<close> and a GCP file with the range \<open>38.0.0.0/16\<close>;
  and a directory \<open>mapped\<close> that holds only an Azure file, with the IPv4-mapped IPv6
  range \<open>::ffff:10.0.0.0/104\<close>.
\<close>

definition sampleLib :: netlib where
  "sampleLib =
     \<lparr>ParseCIDR = map_of
        [(''10.0.0.0/8'', \<lparr>NetIP = [10, 0, 0, 0], MaskOnes = 8\<rparr>),
         (''10.1.0.0/16'', \<lparr>NetIP = [10, 1, 0, 0], MaskOnes = 16\<rparr>),
         (''10.1.2.0/24'', \<lparr>NetIP = [10, 1, 2, 0], MaskOnes = 24\<rparr>),
         (''20.0.0.0/8'', \<lparr>NetIP = [20, 0, 0, 0], MaskOnes = 8\<rparr>),
         (''20.1.0.0/16'', \<lparr>NetIP = [20, 1, 0, 0], MaskOnes = 16\<rparr>),
         (''34.0.0.0/8'', \<lparr>NetIP = [34, 0, 0, 0], MaskOnes = 8\<rparr>),
         (''38.0.0.0/8'', \<lparr>NetIP = [38, 0, 0, 0], MaskOnes = 8\<rparr>),
         (''38.0.0.0/16'', \<lparr>NetIP = [38, 0, 0, 0], MaskOnes = 16\<rparr>),
         (''2600:1f00::/24'',
            \<lparr>NetIP = [38, 0, 31, 0, 0, 0, 0, 0, 0, 0, 0, 0, 0, 0, 0, 0], MaskOnes = 24\<rparr>),
         (''::ffff:10.0.0.0/104'',
            \<lparr>NetIP = [0, 0, 0, 0, 0, 0, 0, 0, 0, 0, 255, 255, 10, 0, 0, 0], MaskOnes = 104\<rparr>)],
      ParseIP = map_of
        [(''10.1.2.3'', [0, 0, 0, 0, 0, 0, 0, 0, 0, 0, 255, 255, 10, 1, 2, 3]),
         (''20.1.2.3'', [0, 0, 0, 0, 0, 0, 0, 0, 0, 0, 255, 255, 20, 1, 2, 3]),
         (''34.1.2.3'', [0, 0, 0, 0, 0, 0, 0, 0, 0, 0, 255, 255, 34, 1, 2, 3]),
         (''38.0.31.7'', [0, 0, 0, 0, 0, 0, 0, 0, 0, 0, 255, 255, 38, 0, 31, 7]),
         (''192.0.2.1'', [0, 0, 0, 0, 0, 0, 0, 0, 0, 0, 255, 255, 192, 0, 2, 1]),
         (''a00::1'', [10, 0, 0, 0, 0, 0, 0, 0, 0, 0, 0, 0, 0, 0, 0, 1])]\<rparr>"

definition sampleAws :: awsData where
  "sampleAws =
     \<lparr>Prefixes =
        [\<lparr>AwsPrefix = ''10.0.0.0/8'', AwsRegion = ''us-east-1'', AwsService = ''EC2'',
          NetworkBorderGroup = ''us-east-1''\<rparr>],
      IPv6Prefixes =
        [\<lparr>AwsPrefix = ''2600:1f00::/24'', AwsRegion = ''us-west-2'', AwsService = ''AMAZON'',
          NetworkBorderGroup = ''us-west-2''\<rparr>]\<rparr>"

definition sampleAzure :: "azureValue list" where
  "sampleAzure =
     [\<lparr>AzureRegion = ''westeurope'', Platform = ''Azure'', SystemService = ''AzureStorage'',
       AddressPrefixes = [''10.1.0.0/16'', ''not-a-cidr'', ''20.0.0.0/8'']\<rparr>]"

definition sampleGcp :: "gcpPrefix list" where
  "sampleGcp =
     [\<lparr>IPv4Prefix = ''10.1.2.0/24'', IPv6Prefix = [], GcpService = ''Google Cloud'', Scope = ''us-central1''\<rparr>,
      \<lparr>IPv4Prefix = ''20.1.0.0/16'', IPv6Prefix = [], GcpService = ''Google Cloud'', Scope = ''europe-west1''\<rparr>,
      \<lparr>IPv4Prefix = ''34.0.0.0/8'', IPv6Prefix = [], GcpService = ''Google Cloud'', Scope = ''asia-east1''\<rparr>]"

definition overlapAzure :: "azureValue list" where
  "overlapAzure =
     [\<lparr>AzureRegion = ''eastus'', Platform = ''Azure'', SystemService = ''AzureCloud'',
       AddressPrefixes = [''38.0.0.0/8'']\<rparr>]"

definition overlapGcp :: "gcpPrefix list" where
  "overlapGcp =
     [\<lparr>IPv4Prefix = ''38.0.0.0/16'', IPv6Prefix = [], GcpService = ''Google Cloud'', Scope = ''us-east4''\<rparr>]"

definition mappedAzure :: "azureValue list" where
  "mappedAzure =
     [\<lparr>AzureRegion = ''eastus'', Platform = ''Azure'', SystemService = ''AzureCloud'',
       AddressPrefixes = [''::ffff:10.0.0.0/104'']\<rparr>]"

definition sampleFiles :: datasets where
  "sampleFiles =
     \<lparr>awsFile = (\<lambda>path. if path = ''data/aws_cloud.json'' \<or> path = ''overlap/aws_cloud.json''
                         then Document sampleAws
                         else ReadError ''no such file or directory''),
      azureFile = (\<lambda>path. if path = ''data/azure_cloud.json'' \<or> path = ''broken/azure_cloud.json''
                           then Document sampleAzure
                           else if path = ''overlap/azure_cloud.json'' then Document overlapAzure
                           else if path = ''mapped/azure_cloud.json'' then Document mappedAzure
                           else ReadError ''no such file or directory''),
      gcpFile = (\<lambda>path. if path = ''data/gcp_cloud.json'' then Document sampleGcp
                         else if path = ''overlap/gcp_cloud.json'' then Document overlapGcp
                         else if path = ''broken/gcp_cloud.json'' then UnmarshalError ''unexpected end of JSON input''
                         else ReadError ''no such file or directory'')\<rparr>"

definition sampleMapper :: NetMapper where
  "sampleMapper = fst (projr (LoadFromDirectory sampleLib sampleFiles NewNetMapper ''data''))"

definition overlapMapper :: NetMapper where
  "overlapMapper = fst (projr (LoadFromDirectory sampleLib sampleFiles NewNetMapper ''overlap''))"

definition awsTrie :: IPTrie where
  "awsTrie = projr (Insert_all sampleLib NewIPTrie (awsEntries sampleAws))"

section \<open>Notions used in the statements\<close>

text \<open>
  The words of the claims about the index. A prefix covers an address of its own family
  (4 or 16 bytes) whose first prefix-length bits are those of the network address. A CIDR
  text is insertable when it does not parse, or when its prefix length lies within the
  bits that \<open>Insert\<close> walks; a directory is loadable when the entries of the documents
  that decode are insertable. A file is unreadable when it is missing or malformed.
\<close>

definition addressBytes :: "IP \<Rightarrow> IP" where
  "addressBytes ip = (case To4 ip of Some ip4 \<Rightarrow> ip4 | None \<Rightarrow> ip)"

definition covers :: "IPNet \<Rightarrow> IP \<Rightarrow> bool" where
  "covers n ip =
     (length (addressBytes (NetIP n)) = length (addressBytes ip)
      \<and> MaskOnes n \<le> 8 * length (addressBytes ip)
      \<and> list_all (\<lambda>i. bitOf (addressBytes (NetIP n)) i = bitOf (addressBytes ip) i) [0 ..< MaskOnes n])"

text \<open>
  The trie read as a table. A path is the list of the bits walked from the root (\<open>True\<close>
  for the bit 1): \<open>infoAt\<close> is the metadata stored at the end of a path, \<open>deepest\<close> the
  metadata of the last node with metadata along a path, \<open>entryPath\<close> the path that
  \<open>Insert\<close> walks for a prefix, and \<open>parsedEntries\<close> the entries whose text parses.
\<close>

definition child :: "TrieNode \<Rightarrow> bool \<Rightarrow> TrieNode option" where
  "child node b = (if b then child1 node else child0 node)"

fun infoAt :: "TrieNode \<Rightarrow> bool list \<Rightarrow> CloudInfo option" where
  "infoAt node [] = info node"
| "infoAt node (b # bs) = (case child node b of None \<Rightarrow> None | Some c \<Rightarrow> infoAt c bs)"

fun deepest :: "TrieNode \<Rightarrow> bool list \<Rightarrow> CloudInfo option" where
  "deepest node [] = info node"
| "deepest node (b # bs) =
     (case child node b of
        None \<Rightarrow> info node
      | Some c \<Rightarrow> (case deepest c bs of Some v \<Rightarrow> Some v | None \<Rightarrow> info node))"

definition pathOf :: "IP \<Rightarrow> nat \<Rightarrow> nat \<Rightarrow> bool list" where
  "pathOf bits i k = map (\<lambda>j. bitOf bits j \<noteq> 0) [i ..< i + k]"

definition parsedEntries :: "netlib \<Rightarrow> (string \<times> CloudInfo) list \<Rightarrow> (IPNet \<times> CloudInfo) list" where
  "parsedEntries lib entries =
     concat (map (\<lambda>(cidr, v). case ParseCIDR lib cidr of None \<Rightarrow> [] | Some n \<Rightarrow> [(n, v)]) entries)"

definition entryPath :: "IPNet \<Rightarrow> bool list" where
  "entryPath n = pathOf (ipToBits (NetIP n)) 0 (MaskOnes n)"

definition insertable :: "netlib \<Rightarrow> string \<Rightarrow> bool" where
  "insertable lib cidr =
     (case ParseCIDR lib cidr of
        None \<Rightarrow> True
      | Some n \<Rightarrow> MaskOnes n \<le> 8 * length (ipToBits (NetIP n)))"

definition unreadable :: "'a file_result \<Rightarrow> bool" where
  "unreadable r = (case r of Document doc \<Rightarrow> False | _ \<Rightarrow> True)"

definition entriesInsertable :: "netlib \<Rightarrow> ('a \<Rightarrow> (string \<times> CloudInfo) list) \<Rightarrow> 'a file_result \<Rightarrow> bool" where
  "entriesInsertable lib entries r =
     (case r of Document doc \<Rightarrow> list_all (\<lambda>(cidr, v). insertable lib cidr) (entries doc) | _ \<Rightarrow> True)"

definition loadable :: "netlib \<Rightarrow> datasets \<Rightarrow> string \<Rightarrow> bool" where
  "loadable lib fs dataDir =
     (entriesInsertable lib awsEntries (awsFile fs (dataDir @ ''/aws_cloud.json''))
      \<and> entriesInsertable lib azureEntries (azureFile fs (dataDir @ ''/azure_cloud.json''))
      \<and> entriesInsertable lib gcpEntries (gcpFile fs (dataDir @ ''/gcp_cloud.json'')))"

text \<open>A resolver used for a sequence of lookups, one after the other.\<close>

definition CheckExists_many :: "network \<Rightarrow> world \<Rightarrow> string list \<Rightarrow> world" where
  "CheckExists_many nw w domains = fold (\<lambda>domain w'. snd (CheckExists nw w' domain)) domains w"

text \<open>The lookup errors that are not a definitive negative: a \<open>*net.DNSError\<close> whose
  \<open>IsNotFound\<close> is false (a time-out, a server failure) and every other error (network
  unreachable, cancelled context).\<close>

definition transient :: "lookup_reply \<Rightarrow> bool" where
  "transient reply =
     (case reply of Addresses ips \<Rightarrow> False | DNSError notFound text \<Rightarrow> \<not> notFound | OtherError text \<Rightarrow> True)"

section \<open>Properties of the mutation engine\<close>

lemma uniqueStrings_loop_distinct:
  "distinct result \<Longrightarrow> (\<forall>s. (seen s = Some True) = (s \<in> set result))
   \<Longrightarrow> distinct (uniqueStrings_loop seen result input)"
proof (induction input arbitrary: seen result)
  case Nil
  then show ?case by simp
next
  case (Cons s rest)
  show ?case
  proof (cases "seen s = Some True")
    case True
    with Cons show ?thesis by simp
  next
    case False
    with Cons.prems have fresh: "s \<notin> set result" by simp
    have "distinct (uniqueStrings_loop (seen(s \<mapsto> True)) (result @ [s]) rest)"
    proof (rule Cons.IH)
      show "distinct (result @ [s])" using Cons.prems(1) fresh by simp
      show "\<forall>t. ((seen(s \<mapsto> True)) t = Some True) = (t \<in> set (result @ [s]))"
        using Cons.prems(2) by auto
    qed
    with False show ?thesis by simp
  qed
qed

lemma uniqueStrings_distinct: "distinct (uniqueStrings input)"
  unfolding uniqueStrings_def by (rule uniqueStrings_loop_distinct) simp_all

lemma natDigits_nonempty: "natDigits n \<noteq> []"
  by (induction n rule: natDigits.induct) (subst natDigits.simps, simp)

lemma natDigits_two: "10 \<le> n \<Longrightarrow> 2 \<le> length (natDigits n)"
proof -
  assume big: "10 \<le> n"
  have "1 \<le> length (natDigits (n div 10))"
    using natDigits_nonempty [of "n div 10"] by (cases "natDigits (n div 10)") simp_all
  moreover have "natDigits n = natDigits (n div 10) @ [digitChars ! (n mod 10)]"
    using big by (subst natDigits.simps) simp
  ultimately show ?thesis by simp
qed

lemma Itoa_two: "10 \<le> y \<Longrightarrow> 2 \<le> length (Itoa y)"
  using natDigits_two [of "nat y"] by (simp add: Itoa_def)

lemma yearCombinations_returns:
  "\<forall>y \<in> set ys. 10 \<le> y \<Longrightarrow> \<exists>r. yearCombinations keyword ys = Inr r"
proof (induction ys)
  case Nil
  then show ?case by simp
next
  case (Cons y ys)
  then obtain r where r: "yearCombinations keyword ys = Inr r" by auto
  have "2 \<le> length (Itoa y)" using Cons.prems by (simp add: Itoa_two)
  then show ?case using r by (simp add: sliceFrom_def Let_def)
qed

lemma uniqueStrings_loop_set:
  "(\<forall>s. (seen s = Some True) = (s \<in> set result))
   \<Longrightarrow> set (uniqueStrings_loop seen result input) = set result \<union> set input"
proof (induction input arbitrary: seen result)
  case Nil
  then show ?case by simp
next
  case (Cons s rest)
  show ?case
  proof (cases "seen s = Some True")
    case True
    then have mem: "s \<in> set result" using Cons.prems by simp
    have "set (uniqueStrings_loop seen result rest) = set result \<union> set rest"
      by (rule Cons.IH [OF Cons.prems])
    moreover have "uniqueStrings_loop seen result (s # rest) = uniqueStrings_loop seen result rest"
      using True by simp
    ultimately show ?thesis using mem by auto
  next
    case False
    have inv: "\<forall>t. ((seen(s \<mapsto> True)) t = Some True) = (t \<in> set (result @ [s]))"
      using Cons.prems by auto
    have "set (uniqueStrings_loop (seen(s \<mapsto> True)) (result @ [s]) rest) = set (result @ [s]) \<union> set rest"
      by (rule Cons.IH [OF inv])
    moreover have "uniqueStrings_loop seen result (s # rest)
        = uniqueStrings_loop (seen(s \<mapsto> True)) (result @ [s]) rest"
      using False by simp
    ultimately show ?thesis by auto
  qed
qed

lemma uniqueStrings_set: "set (uniqueStrings input) = set input"
  unfolding uniqueStrings_def using uniqueStrings_loop_set [of Map.empty "[]" input] by simp

lemma yearCombinations_value:
  "\<forall>y \<in> set ys. 10 \<le> y \<Longrightarrow>
   yearCombinations keyword ys
     = Inr (concat (map (\<lambda>y. [keyword @ ''-'' @ Itoa y, keyword @ Itoa y,
                                 keyword @ ''-'' @ drop 2 (Itoa y)]) ys))"
proof (induction ys)
  case Nil
  show ?case by simp
next
  case (Cons y ys)
  have len: "2 \<le> length (Itoa y)" using Cons.prems by (simp add: Itoa_two)
  have rest: "yearCombinations keyword ys
     = Inr (concat (map (\<lambda>y. [keyword @ ''-'' @ Itoa y, keyword @ Itoa y,
                                 keyword @ ''-'' @ drop 2 (Itoa y)]) ys))"
    using Cons by simp
  have short: "sliceFrom 2 (Itoa y) = Inr (drop 2 (Itoa y))"
    using len by (simp add: sliceFrom_def)
  show ?case
    by (simp only: yearCombinations.simps Let_def short rest sum.case list.map concat.simps append.simps)
qed

text \<open>
  Claim C10. For every keyword (and every mutation table), \<open>GenerateAdvanced\<close> returns, the
  list it returns holds no string twice, and the strings of that list are exactly the
  candidates the seven generators produce: the case variations, the prefix and suffix
  mutations, the number sequences, the cloud patterns, the environment combinations, the
  three year forms of each of the five years around the clock year, and the region
  combinations. So each candidate appears exactly once. The clock year is at least 13, so
  that every year of the five-year window has two digits or more and \<open>year[2:]\<close> is in
  range.
\<close>

theorem GenerateAdvanced_no_duplicates:
  "13 \<le> currentYear \<Longrightarrow>
   \<exists>results. GenerateAdvanced p currentYear keyword = Inr results
     \<and> distinct results
     \<and> set results =
         set (caseVariations keyword @ prefixSuffix (baseMutations p) keyword
              @ numberSequences keyword @ cloudPatternResults keyword
              @ envCombinations keyword
              @ concat (map (\<lambda>y. [keyword @ ''-'' @ Itoa y, keyword @ Itoa y,
                                    keyword @ ''-'' @ drop 2 (Itoa y)])
                            [currentYear - 3 .. currentYear + 1])
              @ regionCombinations keyword)"
proof -
  let ?years = "concat (map (\<lambda>y. [keyword @ ''-'' @ Itoa y, keyword @ Itoa y,
                                    keyword @ ''-'' @ drop 2 (Itoa y)])
                            [currentYear - 3 .. currentYear + 1])"
  let ?raw = "caseVariations keyword @ prefixSuffix (baseMutations p) keyword
              @ numberSequences keyword @ cloudPatternResults keyword
              @ envCombinations keyword @ ?years @ regionCombinations keyword"
  assume yr: "13 \<le> currentYear"
  then have "\<forall>y \<in> set [currentYear - 3 .. currentYear + 1]. 10 \<le> y" by simp
  then have y: "yearCombinations keyword [currentYear - 3 .. currentYear + 1] = Inr ?years"
    by (rule yearCombinations_value)
  have run: "GenerateAdvanced p currentYear keyword = Inr (uniqueStrings ?raw)"
    unfolding GenerateAdvanced_def y by (simp only: sum.case)
  have "distinct (uniqueStrings ?raw)" by (rule uniqueStrings_distinct)
  moreover have "set (uniqueStrings ?raw) = set ?raw" by (rule uniqueStrings_set)
  ultimately show ?thesis using run by (intro exI [of _ "uniqueStrings ?raw"] conjI)
qed

theorem GenerateAdvanced_no_duplicates_witness:
  "13 \<le> (2026::int)
   \<and> (\<exists>results. GenerateAdvanced NewPermuteCore 2026 ''acme'' = Inr results
     \<and> distinct results
     \<and> set results =
         set (caseVariations ''acme'' @ prefixSuffix (baseMutations NewPermuteCore) ''acme''
              @ numberSequences ''acme'' @ cloudPatternResults ''acme''
              @ envCombinations ''acme''
              @ concat (map (\<lambda>y. [''acme'' @ ''-'' @ Itoa y, ''acme'' @ Itoa y,
                                    ''acme'' @ ''-'' @ drop 2 (Itoa y)])
                            [2026 - 3 .. 2026 + 1])
              @ regionCombinations ''acme''))"
proof -
  have h: "13 \<le> (2026::int)" by simp
  from h GenerateAdvanced_no_duplicates [OF h, of NewPermuteCore "''acme''"]
  show ?thesis ..
qed

lemma acme_prod_2024_matches:
  "yearPattern_FindAllString ''acme-prod-2024'' = [''2024'']
   \<and> envPattern_FindAllString ''acme-prod-2024'' = [''prod'']
   \<and> regionPattern_FindAllString ''acme-prod-2024'' = []
   \<and> Atoi ''2024'' = Some 2024"
  by code_simp

lemma acme_prod_2024_years:
  "Itoa (2024 - 1) = ''2023'' \<and> Itoa (2024 + 1) = ''2025'' \<and> Itoa (2024 + 2) = ''2026''"
  by (simp add: Itoa_def natDigits.simps digitChars_def)

lemma acme_prod_2024_replacements:
  "Replace1 ''acme-prod-2024'' ''2024'' ''2023'' = ''acme-prod-2023''
   \<and> Replace1 ''acme-prod-2024'' ''2024'' ''2025'' = ''acme-prod-2025''
   \<and> Replace1 ''acme-prod-2024'' ''2024'' ''2026'' = ''acme-prod-2026''
   \<and> map (\<lambda>newEnv. Replace1 (ToLower ''acme-prod-2024'') (ToLower ''prod'') newEnv)
         (filter (\<lambda>newEnv. newEnv \<noteq> ToLower ''prod'') learnEnvs_names)
       = [''acme-dev-2024'', ''acme-staging-2024'', ''acme-test-2024'', ''acme-qa-2024'',
          ''acme-uat-2024'', ''acme-demo-2024'', ''acme-sandbox-2024'']"
  by code_simp

text \<open>
  Claim C6. Whatever the engine has learned before, \<open>LearnFromDiscovery\<close> on
  \<open>acme-prod-2024\<close> returns these ten candidates: the name with the year replaced by
  2023, 2025 and 2026, and the name with \<open>prod\<close> replaced by \<open>dev\<close>, \<open>staging\<close>, \<open>test\<close>,
  \<open>qa\<close>, \<open>uat\<close> and \<open>demo\<close>, the six other names of the environment pattern, and by
  \<open>sandbox\<close>.
\<close>

theorem LearnFromDiscovery_acme_prod_2024:
  "fst (LearnFromDiscovery p ''acme-prod-2024'')
     = [''acme-prod-2023'', ''acme-prod-2025'', ''acme-prod-2026'',
        ''acme-dev-2024'', ''acme-staging-2024'', ''acme-test-2024'', ''acme-qa-2024'',
        ''acme-uat-2024'', ''acme-demo-2024'', ''acme-sandbox-2024'']"
  using acme_prod_2024_years acme_prod_2024_replacements
  by (simp add: LearnFromDiscovery_def acme_prod_2024_matches Let_def)

section \<open>Properties of the stealth resolver\<close>

lemma CheckExists_keeps_cache:
  "cache w D = Some b \<Longrightarrow> cache (snd (CheckExists nw w d)) D = Some b"
  by (auto simp: CheckExists_def Let_def split: option.splits lookup_reply.splits)

lemma CheckExists_many_keeps_cache:
  "cache w D = Some b \<Longrightarrow> cache (CheckExists_many nw w ds) D = Some b"
  unfolding CheckExists_many_def
  by (induction ds arbitrary: w) (simp_all add: CheckExists_keeps_cache)

lemma CheckExists_negative_is_cached:
  "CheckExists nw w D = (r, w1) \<Longrightarrow> \<not> Exists r \<Longrightarrow> Error r = None \<Longrightarrow> cache w1 D = Some False"
  by (auto simp: CheckExists_def Let_def split: option.splits lookup_reply.splits if_splits)

lemma CheckExists_cached:
  "cache w D = Some b \<Longrightarrow>
   CheckExists nw w D = (\<lparr>Domain = D, Exists = b, IPs = [], Error = None, Latency = 0\<rparr>, w)"
  by (simp add: CheckExists_def)

lemma CheckExists_transient:
  "cache w D = None \<Longrightarrow> transient (lookupHost nw (dnsQueries w) D) \<Longrightarrow>
   CheckExists nw w D = (r, w1) \<Longrightarrow>
   Error r \<noteq> None \<and> \<not> Exists r \<and> cache w1 = cache w \<and> dnsQueries w1 = dnsQueries w @ [D]"
  by (auto simp: CheckExists_def Let_def transient_def split: option.splits lookup_reply.splits if_splits)

lemma CheckExists_exists_no_error:
  "CheckExists nw w D = (d, w1) \<Longrightarrow> Exists d \<Longrightarrow> Error d = None"
  by (auto simp: CheckExists_def Let_def split: option.splits lookup_reply.splits if_splits)

lemma CheckExists_httpRequests:
  "CheckExists nw w D = (d, w1) \<Longrightarrow> httpRequests w1 = httpRequests w"
  by (auto simp: CheckExists_def Let_def split: option.splits lookup_reply.splits if_splits)

text \<open>
  Claim C3. A definitive negative is a result with \<open>Exists = false\<close> and no error.
  Once \<open>CheckExists\<close> has returned one for a domain, every later call for that domain,
  after any number of lookups of other or the same names by the same resolver, returns
  the negative from the cache and leaves the world as it is: no query is added to
  \<open>dnsQueries\<close>. A transient error on a name that is not cached leaves the cache as it
  was and comes back with the error set, which a definitive negative never has.
\<close>

theorem CheckExists_negative_cached_transient_not:
  "(CheckExists nw w D = (r, w1) \<and> \<not> Exists r \<and> Error r = None \<longrightarrow>
      CheckExists nw (CheckExists_many nw w1 ds) D
        = (\<lparr>Domain = D, Exists = False, IPs = [], Error = None, Latency = 0\<rparr>,
           CheckExists_many nw w1 ds))
   \<and> (cache w D = None \<and> transient (lookupHost nw (dnsQueries w) D) \<longrightarrow>
        Error (fst (CheckExists nw w D)) \<noteq> None
        \<and> cache (snd (CheckExists nw w D)) = cache w)"
proof (intro conjI impI)
  assume a: "CheckExists nw w D = (r, w1) \<and> \<not> Exists r \<and> Error r = None"
  then have "cache w1 D = Some False" using CheckExists_negative_is_cached by blast
  then have "cache (CheckExists_many nw w1 ds) D = Some False"
    by (rule CheckExists_many_keeps_cache)
  then show "CheckExists nw (CheckExists_many nw w1 ds) D
        = (\<lparr>Domain = D, Exists = False, IPs = [], Error = None, Latency = 0\<rparr>,
           CheckExists_many nw w1 ds)"
    by (rule CheckExists_cached)
next
  assume b: "cache w D = None \<and> transient (lookupHost nw (dnsQueries w) D)"
  obtain r' w' where rw: "CheckExists nw w D = (r', w')" by (cases "CheckExists nw w D")
  from CheckExists_transient [OF _ _ rw] b
  show "Error (fst (CheckExists nw w D)) \<noteq> None" using rw by simp
  from CheckExists_transient [OF _ _ rw] b
  show "cache (snd (CheckExists nw w D)) = cache w" using rw by simp
qed

theorem CheckExists_negative_cached_transient_not_witness:
  "(\<not> Exists (fst (CheckExists flakyNetwork newWorld ''gone.example.com''))
    \<and> Error (fst (CheckExists flakyNetwork newWorld ''gone.example.com'')) = None
    \<and> dnsQueries (snd (CheckExists flakyNetwork newWorld ''gone.example.com'')) = [''gone.example.com'']
    \<and> dnsQueries
         (snd (CheckExists flakyNetwork
                 (CheckExists_many flakyNetwork
                    (snd (CheckExists flakyNetwork newWorld ''gone.example.com''))
                    [''slow.example.com''])
                 ''gone.example.com''))
       = [''gone.example.com'', ''slow.example.com''])
   \<and> (cache newWorld ''slow.example.com'' = None
      \<and> transient (lookupHost flakyNetwork (dnsQueries newWorld) ''slow.example.com'')
      \<and> Error (fst (CheckExists flakyNetwork newWorld ''slow.example.com'')) \<noteq> None
      \<and> cache (snd (CheckExists flakyNetwork newWorld ''slow.example.com'')) = cache newWorld)"
proof -
  let ?first = "CheckExists flakyNetwork newWorld ''gone.example.com''"
  have neg: "\<not> Exists (fst ?first) \<and> Error (fst ?first) = None"
    by (simp add: CheckExists_def flakyNetwork_def fakeNetwork_def newWorld_def)
  have q1: "dnsQueries (snd ?first) = [''gone.example.com'']"
    by (simp add: CheckExists_def flakyNetwork_def fakeNetwork_def newWorld_def)
  have q2: "dnsQueries (CheckExists_many flakyNetwork (snd ?first) [''slow.example.com''])
              = [''gone.example.com'', ''slow.example.com'']"
    by (simp add: CheckExists_many_def CheckExists_def flakyNetwork_def fakeNetwork_def newWorld_def)
  have pre: "cache newWorld ''slow.example.com'' = None
      \<and> transient (lookupHost flakyNetwork (dnsQueries newWorld) ''slow.example.com'')"
    by (simp add: transient_def flakyNetwork_def fakeNetwork_def newWorld_def)
  have first: "?first = (fst ?first, snd ?first) \<and> \<not> Exists (fst ?first) \<and> Error (fst ?first) = None"
    using neg by simp
  show ?thesis
    using CheckExists_negative_cached_transient_not
            [of flakyNetwork newWorld "''gone.example.com''" "fst ?first" "snd ?first"
                "[''slow.example.com'']"]
          CheckExists_negative_cached_transient_not
            [of flakyNetwork newWorld "''slow.example.com''" "fst ?first" "snd ?first" "[]"]
          first neg q1 q2 pre
    by simp
qed

section \<open>Properties of the object-storage providers\<close>

lemma S3_negative:
  assumes "CheckExists nw w (extractBucketName target @ ''.s3.amazonaws.com'') = (d, w1)"
    and "\<not> Exists d" and "Error d = None"
  shows "fst (fst (S3_Check nw w target)) = None
         \<and> httpRequests (snd (S3_Check nw w target)) = httpRequests w"
  using assms CheckExists_httpRequests [OF assms(1)]
  by (simp add: S3_Check_def Let_def)

lemma S3_not_found:
  assumes "CheckExists nw w (extractBucketName target @ ''.s3.amazonaws.com'') = (d, w1)"
    and "Exists d"
    and "httpDo nw (httpRequests w1) (''HEAD'', target) = Response 404 len hs body"
  shows "fst (fst (S3_Check nw w target)) = None"
  using assms CheckExists_exists_no_error [OF assms(1,2)]
  by (simp add: S3_Check_def Let_def Client_Check_def S3_classify_def)

lemma Azure_negative:
  assumes "extractAzureInfo target = (accountName, containerName)"
    and "CheckExists nw w (accountName @ ''.blob.core.windows.net'') = (d, w1)"
    and "\<not> Exists d" and "Error d = None"
  shows "fst (fst (Azure_Check nw w target)) = None
         \<and> httpRequests (snd (Azure_Check nw w target)) = httpRequests w"
  using assms CheckExists_httpRequests [OF assms(2)]
  by (simp add: Azure_Check_def Let_def)

lemma Azure_not_found:
  assumes "extractAzureInfo target = (accountName, containerName)"
    and "accountName \<noteq> []"
    and "CheckExists nw w (accountName @ ''.blob.core.windows.net'') = (d, w1)"
    and "Exists d"
    and "httpDo nw (httpRequests w1)
           (''HEAD'', Azure_checkURL target (accountName @ ''.blob.core.windows.net'') containerName)
         = Response 404 len hs body"
  shows "fst (Azure_Check nw w target) =
           (if containerName = [] then (None, None)
            else (Some (emptyResult\<lparr>URL := target, Provider := ''Azure'', Status := 404, Size := len,
                                     Permissions := ''CONTAINER_NOT_FOUND''\<rparr>), None))"
  using assms CheckExists_exists_no_error [OF assms(3,4)]
  by (simp add: Azure_Check_def Let_def Client_Check_def Azure_classify_def)

text \<open>
  Claim C2, as the code has it. For S3 and for Azure Blob, a definitive negative of the
  DNS check on the virtual-hosted hostname ends \<open>Check\<close> with no Finding and with the
  log of HTTP requests unchanged. After a positive DNS answer, status 404 of the HEAD probe
  gives no Finding for S3, and for Azure when the target names no container; an Azure
  target that names a container is reported with the permission \<open>CONTAINER_NOT_FOUND\<close>.
\<close>

theorem storage_check_two_phase:
  "(CheckExists nw w (extractBucketName target @ ''.s3.amazonaws.com'') = (d, w1)
      \<and> \<not> Exists d \<and> Error d = None
      \<longrightarrow> fst (fst (S3_Check nw w target)) = None
          \<and> httpRequests (snd (S3_Check nw w target)) = httpRequests w)
   \<and> (CheckExists nw w (extractBucketName target @ ''.s3.amazonaws.com'') = (d, w1)
      \<and> Exists d \<and> httpDo nw (httpRequests w1) (''HEAD'', target) = Response 404 len hs body
      \<longrightarrow> fst (fst (S3_Check nw w target)) = None)
   \<and> (extractAzureInfo target = (accountName, containerName)
      \<and> CheckExists nw w (accountName @ ''.blob.core.windows.net'') = (d, w1)
      \<and> \<not> Exists d \<and> Error d = None
      \<longrightarrow> fst (fst (Azure_Check nw w target)) = None
          \<and> httpRequests (snd (Azure_Check nw w target)) = httpRequests w)
   \<and> (extractAzureInfo target = (accountName, containerName) \<and> accountName \<noteq> []
      \<and> CheckExists nw w (accountName @ ''.blob.core.windows.net'') = (d, w1) \<and> Exists d
      \<and> httpDo nw (httpRequests w1)
           (''HEAD'', Azure_checkURL target (accountName @ ''.blob.core.windows.net'') containerName)
         = Response 404 len hs body
      \<longrightarrow> fst (Azure_Check nw w target) =
           (if containerName = [] then (None, None)
            else (Some (emptyResult\<lparr>URL := target, Provider := ''Azure'', Status := 404, Size := len,
                                     Permissions := ''CONTAINER_NOT_FOUND''\<rparr>), None)))"
  using S3_negative [of nw w target d w1] S3_not_found [of nw w target d w1 len hs body]
        Azure_negative [of target accountName containerName nw w d w1]
        Azure_not_found [of target accountName containerName nw w d w1 len hs body]
  by blast

theorem storage_check_two_phase_witness:
  "(\<not> Exists (fst (CheckExists nxdomainNetwork newWorld ''acme.s3.amazonaws.com''))
    \<and> Error (fst (CheckExists nxdomainNetwork newWorld ''acme.s3.amazonaws.com'')) = None
    \<and> fst (fst (S3_Check nxdomainNetwork newWorld ''http://acme.s3.amazonaws.com'')) = None
    \<and> httpRequests (snd (S3_Check nxdomainNetwork newWorld ''http://acme.s3.amazonaws.com''))
        = httpRequests newWorld)
   \<and> (Exists (fst (CheckExists (statusNetwork 404) newWorld ''acme.s3.amazonaws.com''))
    \<and> fst (fst (S3_Check (statusNetwork 404) newWorld ''http://acme.s3.amazonaws.com'')) = None)
   \<and> (\<not> Exists (fst (CheckExists nxdomainNetwork newWorld ''acme.blob.core.windows.net''))
    \<and> Error (fst (CheckExists nxdomainNetwork newWorld ''acme.blob.core.windows.net'')) = None
    \<and> fst (fst (Azure_Check nxdomainNetwork newWorld ''http://acme.blob.core.windows.net'')) = None
    \<and> httpRequests (snd (Azure_Check nxdomainNetwork newWorld ''http://acme.blob.core.windows.net''))
        = httpRequests newWorld)
   \<and> (Exists (fst (CheckExists (statusNetwork 404) newWorld ''acme.blob.core.windows.net''))
    \<and> fst (Azure_Check (statusNetwork 404) newWorld ''http://acme.blob.core.windows.net'')
        = (None, None))"
proof -
  let ?s3 = "''http://acme.s3.amazonaws.com''"
  let ?az = "''http://acme.blob.core.windows.net''"
  let ?nx3 = "CheckExists nxdomainNetwork newWorld ''acme.s3.amazonaws.com''"
  let ?ok3 = "CheckExists (statusNetwork 404) newWorld ''acme.s3.amazonaws.com''"
  let ?nxa = "CheckExists nxdomainNetwork newWorld ''acme.blob.core.windows.net''"
  let ?oka = "CheckExists (statusNetwork 404) newWorld ''acme.blob.core.windows.net''"
  have b: "extractBucketName ?s3 = ''acme''" by code_simp
  have a: "extractAzureInfo ?az = (''acme'', [])" by code_simp
  have u: "Azure_checkURL ?az ''acme.blob.core.windows.net'' [] = ?az"
    by (simp add: Azure_checkURL_def)
  have n3: "\<not> Exists (fst ?nx3) \<and> Error (fst ?nx3) = None"
    by (simp add: CheckExists_def nxdomainNetwork_def fakeNetwork_def newWorld_def)
  have na: "\<not> Exists (fst ?nxa) \<and> Error (fst ?nxa) = None"
    by (simp add: CheckExists_def nxdomainNetwork_def fakeNetwork_def newWorld_def)
  have p3: "Exists (fst ?ok3) \<and> httpRequests (snd ?ok3) = []"
    by (simp add: CheckExists_def statusNetwork_def fakeNetwork_def newWorld_def)
  have pa: "Exists (fst ?oka) \<and> httpRequests (snd ?oka) = []"
    by (simp add: CheckExists_def statusNetwork_def fakeNetwork_def newWorld_def)
  have h: "\<And>request. httpDo (statusNetwork 404) [] request = Response 404 0 Map.empty []"
    by (simp add: statusNetwork_def fakeNetwork_def)
  have c1: "fst (fst (S3_Check nxdomainNetwork newWorld ?s3)) = None
            \<and> httpRequests (snd (S3_Check nxdomainNetwork newWorld ?s3)) = httpRequests newWorld"
    using storage_check_two_phase
            [where nw = nxdomainNetwork and w = newWorld and target = ?s3
               and d = "fst ?nx3" and ?w1.0 = "snd ?nx3"]
          b n3 by simp
  have c2: "fst (fst (S3_Check (statusNetwork 404) newWorld ?s3)) = None"
    using storage_check_two_phase
            [where nw = "statusNetwork 404" and w = newWorld and target = ?s3
               and d = "fst ?ok3" and ?w1.0 = "snd ?ok3" and len = 0 and hs = Map.empty and body = "[]"]
          b p3 h by simp
  have c3: "fst (fst (Azure_Check nxdomainNetwork newWorld ?az)) = None
            \<and> httpRequests (snd (Azure_Check nxdomainNetwork newWorld ?az)) = httpRequests newWorld"
    using storage_check_two_phase
            [where nw = nxdomainNetwork and w = newWorld and target = ?az
               and d = "fst ?nxa" and ?w1.0 = "snd ?nxa"
               and accountName = "''acme''" and containerName = "[]"]
          a na by simp
  have c4: "fst (Azure_Check (statusNetwork 404) newWorld ?az) = (None, None)"
    using storage_check_two_phase
            [where nw = "statusNetwork 404" and w = newWorld and target = ?az
               and d = "fst ?oka" and ?w1.0 = "snd ?oka" and len = 0 and hs = Map.empty and body = "[]"
               and accountName = "''acme''" and containerName = "[]"]
          a u pa h by simp
  show ?thesis using n3 na p3 pa c1 c2 c3 c4 by simp
qed

text \<open>
  The claim as stated fails for an Azure candidate that names a container (the Azure
  generator emits such candidates): the storage account resolves, the probe of the
  container listing is answered with status 404, and \<open>Check\<close> returns a Finding.
\<close>

theorem Azure_container_404_counterexample:
  "Exists (fst (CheckExists (statusNetwork 404) newWorld ''acme.blob.core.windows.net''))
   \<and> fst (Azure_Check (statusNetwork 404) newWorld
            ''http://acme.blob.core.windows.net/public?restype=container&comp=list'')
     = (Some \<lparr>URL = ''http://acme.blob.core.windows.net/public?restype=container&comp=list'',
              Provider = ''Azure'', Status = 404, Size = 0,
              Permissions = ''CONTAINER_NOT_FOUND'', Files = [], ResultError = []\<rparr>, None)"
  by code_simp

section \<open>Properties of the orchestration engines\<close>

subsection \<open>The keywords of the catalog phase\<close>

lemma uniqueStrings_loop_extends:
  "\<exists>rest. uniqueStrings_loop seen result input = result @ rest"
proof (induction input arbitrary: seen result)
  case Nil
  then show ?case by simp
next
  case (Cons s input)
  show ?case
  proof (cases "seen s = Some True")
    case True
    then show ?thesis using Cons.IH [of seen result] by simp
  next
    case False
    obtain rest where "uniqueStrings_loop (seen(s \<mapsto> True)) (result @ [s]) input = (result @ [s]) @ rest"
      using Cons.IH [of "seen(s \<mapsto> True)" "result @ [s]"] by blast
    then show ?thesis using False by simp
  qed
qed

lemma uniqueStrings_loop_append:
  "\<exists>seen'. uniqueStrings_loop seen result (xs @ ys)
      = uniqueStrings_loop seen' (uniqueStrings_loop seen result xs) ys"
proof (induction xs arbitrary: seen result)
  case Nil
  show ?case by (rule exI [of _ seen]) simp
next
  case (Cons s xs)
  show ?case
  proof (cases "seen s = Some True")
    case True
    then show ?thesis using Cons.IH [of seen result] by simp
  next
    case False
    obtain seen' where
      "uniqueStrings_loop (seen(s \<mapsto> True)) (result @ [s]) (xs @ ys)
         = uniqueStrings_loop seen' (uniqueStrings_loop (seen(s \<mapsto> True)) (result @ [s]) xs) ys"
      using Cons.IH [of "seen(s \<mapsto> True)" "result @ [s]"] by blast
    then have "uniqueStrings_loop seen result ((s # xs) @ ys)
         = uniqueStrings_loop seen' (uniqueStrings_loop seen result (s # xs)) ys"
      using False by simp
    then show ?thesis by blast
  qed
qed

lemma uniqueStrings_take:
  assumes "n \<le> length (uniqueStrings (take k input))"
  shows "take n (uniqueStrings input) = take n (uniqueStrings (take k input))"
proof -
  obtain seen' where
    "uniqueStrings_loop Map.empty [] (take k input @ drop k input)
       = uniqueStrings_loop seen' (uniqueStrings_loop Map.empty [] (take k input)) (drop k input)"
    using uniqueStrings_loop_append by blast
  moreover obtain rest where
    "uniqueStrings_loop seen' (uniqueStrings_loop Map.empty [] (take k input)) (drop k input)
       = uniqueStrings_loop Map.empty [] (take k input) @ rest"
    using uniqueStrings_loop_extends by blast
  ultimately have "uniqueStrings input = uniqueStrings (take k input) @ rest"
    by (simp add: uniqueStrings_def)
  then show ?thesis using assms by simp
qed

lemma acme_years: "\<exists>years. yearCombinations ''acme'' [2026 - 3 .. 2026 + 1] = Inr years"
  by (rule yearCombinations_returns) simp

lemma acme_raw_prefix:
  "take 50 (caseVariations ''acme'' @ prefixSuffix (baseMutations NewPermuteCore) ''acme'' @ rest) = acmeFirst50"
  by code_simp

lemma acme_prefix_unique: "uniqueStrings acmeFirst50 = acmeFirst50"
  by code_simp

lemma acme_mutations_prefix:
  "\<not> isl (GenerateAdvanced NewPermuteCore 2026 ''acme'')
   \<and> take 50 (projr (GenerateAdvanced NewPermuteCore 2026 ''acme'')) = acmeFirst50"
proof -
  obtain years where y: "yearCombinations ''acme'' [2026 - 3 .. 2026 + 1] = Inr years"
    using acme_years by blast
  let ?rest = "numberSequences ''acme'' @ cloudPatternResults ''acme''
                  @ envCombinations ''acme'' @ years @ regionCombinations ''acme''"
  let ?raw = "caseVariations ''acme'' @ prefixSuffix (baseMutations NewPermuteCore) ''acme'' @ ?rest"
  have g: "GenerateAdvanced NewPermuteCore 2026 ''acme'' = Inr (uniqueStrings ?raw)"
    using y by (simp add: GenerateAdvanced_def)
  have len: "length acmeFirst50 = 50" by (simp add: acmeFirst50_def)
  have t: "take 50 ?raw = acmeFirst50" by (rule acme_raw_prefix)
  have "take 50 (uniqueStrings ?raw) = take 50 (uniqueStrings (take 50 ?raw))"
  proof (rule uniqueStrings_take)
    show "50 \<le> length (uniqueStrings (take 50 ?raw))"
      unfolding t acme_prefix_unique len by simp
  qed
  then have "take 50 (uniqueStrings ?raw) = take 50 acmeFirst50"
    unfolding t acme_prefix_unique .
  then have "take 50 (uniqueStrings ?raw) = acmeFirst50"
    using len by simp
  then show ?thesis using g by simp
qed

lemma catalogKeywords_take:
  "49 \<le> length mutations \<Longrightarrow> ScanAll_catalogKeywords keyword mutations = keyword # take 49 mutations"
proof -
  assume "49 \<le> length mutations"
  then have "min (Suc (length mutations)) 50 = Suc 49" by simp
  then show ?thesis
    unfolding ScanAll_catalogKeywords_def ScanAll_allKeywords_def by simp
qed

text \<open>
  Claim C4, as the code has it. The catalog phase takes the first fifty entries of the
  keyword list, which begins with the seed keyword: for a mutation list of at least fifty
  entries the generator is fed the keyword and the first 49 mutations, and the work
  channel receives the catalog targets of exactly these keywords.
\<close>

theorem catalog_phase_keywords:
  "50 \<le> length mutations \<Longrightarrow>
   ScanAll_catalogKeywords keyword mutations = keyword # take 49 mutations
   \<and> set (ScanAll_catalogKeywords keyword mutations) = insert keyword (set (take 49 mutations))
   \<and> ScanAll_cloudWork cat config keyword mutations
       = concat (map (GenerateAllTargets cat config) (keyword # take 49 mutations))"
  by (simp add: catalogKeywords_take ScanAll_cloudWork_def)

theorem catalog_phase_keywords_witness:
  "50 \<le> length (projr (GenerateAdvanced NewPermuteCore 2026 ''acme''))
   \<and> ScanAll_catalogKeywords ''acme'' (projr (GenerateAdvanced NewPermuteCore 2026 ''acme''))
       = ''acme'' # take 49 acmeFirst50"
proof -
  let ?M = "projr (GenerateAdvanced NewPermuteCore 2026 ''acme'')"
  have p: "take 50 ?M = acmeFirst50" using acme_mutations_prefix by simp
  have "length (take 50 ?M) = 50" unfolding p by (simp add: acmeFirst50_def)
  then have len: "50 \<le> length ?M" by simp
  have "take 49 ?M = take 49 (take 50 ?M)" by simp
  then have t: "take 49 ?M = take 49 acmeFirst50" unfolding p .
  show ?thesis
    using catalog_phase_keywords [OF len, of "''acme''"] len t by simp
qed

text \<open>
  The claim as stated fails: for the keyword \<open>acme\<close> the generator returns more than
  fifty mutations, the fiftieth is \<open>acme.stage\<close>, and the catalog generator is never
  called with it.
\<close>

theorem catalog_phase_keywords_counterexample:
  "\<not> isl (GenerateAdvanced NewPermuteCore 2026 ''acme'')
   \<and> 50 \<le> length (projr (GenerateAdvanced NewPermuteCore 2026 ''acme''))
   \<and> projr (GenerateAdvanced NewPermuteCore 2026 ''acme'') ! 49 = ''acme.stage''
   \<and> ''acme.stage'' \<notin> set (ScanAll_catalogKeywords ''acme''
                                (projr (GenerateAdvanced NewPermuteCore 2026 ''acme'')))
   \<and> set (ScanAll_catalogKeywords ''acme'' (projr (GenerateAdvanced NewPermuteCore 2026 ''acme'')))
       \<noteq> insert ''acme'' (set (take 50 (projr (GenerateAdvanced NewPermuteCore 2026 ''acme''))))"
proof -
  let ?M = "projr (GenerateAdvanced NewPermuteCore 2026 ''acme'')"
  have p: "take 50 ?M = acmeFirst50" using acme_mutations_prefix by simp
  have "length (take 50 ?M) = 50" unfolding p by (simp add: acmeFirst50_def)
  then have len: "50 \<le> length ?M" by simp
  have "?M ! 49 = take 50 ?M ! 49" by simp
  then have nth: "?M ! 49 = ''acme.stage''" unfolding p by (simp add: acmeFirst50_def)
  have "take 49 ?M = take 49 (take 50 ?M)" by simp
  then have t: "take 49 ?M = take 49 acmeFirst50" unfolding p .
  have fed: "ScanAll_catalogKeywords ''acme'' ?M = ''acme'' # take 49 acmeFirst50"
    using catalogKeywords_take [of ?M "''acme''"] len t by simp
  have "''acme.stage'' \<notin> set (''acme'' # take 49 acmeFirst50)" by code_simp
  then have out: "''acme.stage'' \<notin> set (ScanAll_catalogKeywords ''acme'' ?M)"
    unfolding fed .
  have "?M ! 49 \<in> set (take 50 ?M)"
    using len by (simp add: in_set_conv_nth) (rule exI [of _ 49], simp)
  then have "''acme.stage'' \<in> insert ''acme'' (set (take 50 ?M))" using nth by simp
  with out have "set (ScanAll_catalogKeywords ''acme'' ?M) \<noteq> insert ''acme'' (set (take 50 ?M))"
    by blast
  then show ?thesis using acme_mutations_prefix len nth out by simp
qed

subsection \<open>Classification and reporting of catalog targets\<close>

lemma CheckTarget_positive:
  assumes "CheckExists nw w (CheckTarget_hostname (TargetURL target)) = (d, w1)"
    and "Exists d"
    and "httpDo nw (httpRequests w1) (''HEAD'', TargetURL target) = Response status len hs body"
  shows "fst (CheckTarget nw w target) =
           CheckTarget_classify
             \<lparr>AssetURL = TargetURL target,
              AssetProvider = ServiceProvider (Service target),
              AssetServiceType = ServiceType (Service target),
              AssetRegion = TargetRegion target,
              AssetStatus = 0,
              AssetSeverity = ServiceSeverity (Service target),
              Accessible = False,
              Headers = Map.empty,
              AssetError = []\<rparr> status"
  using assms by (simp add: CheckTarget_def Let_def Client_Check_def)

lemma classify_accessible:
  "status \<in> {200, 201, 202, 204, 301, 302, 307, 308} \<Longrightarrow>
   map_option Accessible (CheckTarget_classify r status) = Some True"
  by (auto simp: CheckTarget_classify_def Let_def)

lemma classify_protected:
  "status \<in> {401, 403} \<Longrightarrow> map_option Accessible (CheckTarget_classify r status) = Some False"
  by (auto simp: CheckTarget_classify_def Let_def)

lemma classify_status:
  "map_option AssetStatus (CheckTarget_classify r status) = (if status = 404 then None else Some status)"
  by (simp add: CheckTarget_classify_def Let_def)

lemma report_iff:
  "(cloudWorker_report (CheckTarget_classify r status) now \<noteq> None) = (status \<in> {200, 401, 403})"
  by (simp add: cloudWorker_report_def CheckTarget_classify_def Let_def)

lemma cloudWorker_results:
  "results (cloudWorker e checkResult now)
     = results e @ (case cloudWorker_report checkResult now of None \<Rightarrow> [] | Some f \<Rightarrow> [f])"
  by (simp add: cloudWorker_def Let_def split: option.splits)

lemma cloudWorker_checked:
  "checked (cloudWorker e checkResult now) = checked e + 1"
  by (simp add: cloudWorker_def Let_def split: option.splits)

text \<open>
  Claim C5, as the code has it. For a catalog target whose DNS pre-filter is positive and
  whose HEAD probe is answered with a status, the verifier marks 200, 201, 202, 204, 301,
  302, 307 and 308 accessible, marks 401 and 403 not accessible, and returns no result
  for 404. The worker of the full-recon engine sends a Finding to the results channel
  exactly when the status is 200, 401 or 403; for the other statuses it sends nothing.
  Whatever the status, the worker counts the target as checked: the counter of checks
  grows by one.
\<close>

theorem catalog_classification_and_report:
  "CheckExists nw w (CheckTarget_hostname (TargetURL target)) = (d, w1) \<and> Exists d
   \<and> httpDo nw (httpRequests w1) (''HEAD'', TargetURL target) = Response status len hs body
   \<longrightarrow>
     (status \<in> {200, 201, 202, 204, 301, 302, 307, 308}
        \<longrightarrow> map_option Accessible (fst (CheckTarget nw w target)) = Some True)
   \<and> (status \<in> {401, 403}
        \<longrightarrow> map_option Accessible (fst (CheckTarget nw w target)) = Some False)
   \<and> (status = 404 \<longrightarrow> fst (CheckTarget nw w target) = None)
   \<and> (status \<noteq> 404 \<longrightarrow> map_option AssetStatus (fst (CheckTarget nw w target)) = Some status)
   \<and> ((cloudWorker_report (fst (CheckTarget nw w target)) now \<noteq> None) = (status \<in> {200, 401, 403}))
   \<and> results (cloudWorker e (fst (CheckTarget nw w target)) now)
       = results e @ (case cloudWorker_report (fst (CheckTarget nw w target)) now of
                        None \<Rightarrow> [] | Some f \<Rightarrow> [f])
   \<and> checked (cloudWorker e (fst (CheckTarget nw w target)) now) = checked e + 1"
proof (intro impI, elim conjE)
  assume a: "CheckExists nw w (CheckTarget_hostname (TargetURL target)) = (d, w1)" "Exists d"
    "httpDo nw (httpRequests w1) (''HEAD'', TargetURL target) = Response status len hs body"
  note c = CheckTarget_positive [OF a]
  have nf: "status = 404 \<longrightarrow> fst (CheckTarget nw w target) = None"
    unfolding c by (simp add: CheckTarget_classify_def Let_def)
  show "(status \<in> {200, 201, 202, 204, 301, 302, 307, 308}
        \<longrightarrow> map_option Accessible (fst (CheckTarget nw w target)) = Some True)
   \<and> (status \<in> {401, 403}
        \<longrightarrow> map_option Accessible (fst (CheckTarget nw w target)) = Some False)
   \<and> (status = 404 \<longrightarrow> fst (CheckTarget nw w target) = None)
   \<and> (status \<noteq> 404 \<longrightarrow> map_option AssetStatus (fst (CheckTarget nw w target)) = Some status)
   \<and> ((cloudWorker_report (fst (CheckTarget nw w target)) now \<noteq> None) = (status \<in> {200, 401, 403}))
   \<and> results (cloudWorker e (fst (CheckTarget nw w target)) now)
       = results e @ (case cloudWorker_report (fst (CheckTarget nw w target)) now of
                        None \<Rightarrow> [] | Some f \<Rightarrow> [f])
   \<and> checked (cloudWorker e (fst (CheckTarget nw w target)) now) = checked e + 1"
    using nf classify_accessible classify_protected
    unfolding c classify_status report_iff cloudWorker_results cloudWorker_checked
    by simp
qed

lemma statusNetwork_resolves:
  "Exists (fst (CheckExists (statusNetwork status) newWorld domain))
   \<and> httpRequests (snd (CheckExists (statusNetwork status) newWorld domain)) = []"
  by (simp add: CheckExists_def statusNetwork_def fakeNetwork_def newWorld_def)

lemma statusNetwork_reply:
  "httpDo (statusNetwork status) [] request = Response status 0 Map.empty []"
  by (simp add: statusNetwork_def fakeNetwork_def)

theorem catalog_classification_and_report_witness:
  "Exists (fst (CheckExists (statusNetwork 204) newWorld (CheckTarget_hostname (TargetURL cloudFrontTarget))))
   \<and> map_option Accessible (fst (CheckTarget (statusNetwork 204) newWorld cloudFrontTarget)) = Some True
   \<and> cloudWorker_report (fst (CheckTarget (statusNetwork 204) newWorld cloudFrontTarget)) ''2026-01-01T00:00:00Z'' = None
   \<and> checked (cloudWorker newEngine (fst (CheckTarget (statusNetwork 204) newWorld cloudFrontTarget))
                ''2026-01-01T00:00:00Z'') = 1
   \<and> map_option Accessible (fst (CheckTarget (statusNetwork 403) newWorld cloudFrontTarget)) = Some False
   \<and> cloudWorker_report (fst (CheckTarget (statusNetwork 403) newWorld cloudFrontTarget)) ''2026-01-01T00:00:00Z'' \<noteq> None
   \<and> fst (CheckTarget (statusNetwork 404) newWorld cloudFrontTarget) = None
   \<and> map_option Accessible (fst (CheckTarget (statusNetwork 200) newWorld cloudFrontTarget)) = Some True
   \<and> cloudWorker_report (fst (CheckTarget (statusNetwork 200) newWorld cloudFrontTarget)) ''2026-01-01T00:00:00Z'' \<noteq> None"
proof -
  let ?host = "CheckTarget_hostname (TargetURL cloudFrontTarget)"
  have inst: "\<And>status.
      CheckExists (statusNetwork status) newWorld ?host
        = (fst (CheckExists (statusNetwork status) newWorld ?host),
           snd (CheckExists (statusNetwork status) newWorld ?host))
      \<and> Exists (fst (CheckExists (statusNetwork status) newWorld ?host))
      \<and> httpDo (statusNetwork status)
            (httpRequests (snd (CheckExists (statusNetwork status) newWorld ?host)))
            (''HEAD'', TargetURL cloudFrontTarget) = Response status 0 Map.empty []"
    by (simp add: statusNetwork_resolves statusNetwork_reply)
  have c204: "map_option Accessible (fst (CheckTarget (statusNetwork 204) newWorld cloudFrontTarget)) = Some True
     \<and> cloudWorker_report (fst (CheckTarget (statusNetwork 204) newWorld cloudFrontTarget)) ''2026-01-01T00:00:00Z'' = None
     \<and> checked (cloudWorker newEngine (fst (CheckTarget (statusNetwork 204) newWorld cloudFrontTarget))
                  ''2026-01-01T00:00:00Z'') = checked (newEngine :: FullCloudResult engine) + 1"
    using catalog_classification_and_report
            [where nw = "statusNetwork 204" and status = 204 and w = newWorld
               and target = cloudFrontTarget and len = 0 and hs = Map.empty and body = "[]"
               and now = "''2026-01-01T00:00:00Z''" and e = newEngine, THEN mp, OF inst [of 204]]
    by simp
  have zero: "checked (newEngine :: FullCloudResult engine) + 1 = 1"
    by (simp add: newEngine_def)
  have c403: "map_option Accessible (fst (CheckTarget (statusNetwork 403) newWorld cloudFrontTarget)) = Some False
     \<and> cloudWorker_report (fst (CheckTarget (statusNetwork 403) newWorld cloudFrontTarget)) ''2026-01-01T00:00:00Z'' \<noteq> None"
    using catalog_classification_and_report
            [where nw = "statusNetwork 403" and status = 403 and w = newWorld
               and target = cloudFrontTarget and len = 0 and hs = Map.empty and body = "[]"
               and now = "''2026-01-01T00:00:00Z''", THEN mp, OF inst [of 403]]
    by simp
  have c404: "fst (CheckTarget (statusNetwork 404) newWorld cloudFrontTarget) = None"
    using catalog_classification_and_report
            [where nw = "statusNetwork 404" and status = 404 and w = newWorld
               and target = cloudFrontTarget and len = 0 and hs = Map.empty and body = "[]"
               and now = "''2026-01-01T00:00:00Z''", THEN mp, OF inst [of 404]]
    by simp
  have c200: "map_option Accessible (fst (CheckTarget (statusNetwork 200) newWorld cloudFrontTarget)) = Some True
     \<and> cloudWorker_report (fst (CheckTarget (statusNetwork 200) newWorld cloudFrontTarget)) ''2026-01-01T00:00:00Z'' \<noteq> None"
    using catalog_classification_and_report
            [where nw = "statusNetwork 200" and status = 200 and w = newWorld
               and target = cloudFrontTarget and len = 0 and hs = Map.empty and body = "[]"
               and now = "''2026-01-01T00:00:00Z''", THEN mp, OF inst [of 200]]
    by simp
  show ?thesis using statusNetwork_resolves c204 c403 c404 c200 zero by simp
qed

text \<open>
  The claim as stated fails for a redirect: the name resolves, the probe is answered with
  status 301, the verifier returns a result marked accessible, and the worker of the
  full-recon engine sends nothing to the results channel.
\<close>

theorem catalog_redirect_not_reported_counterexample:
  "Exists (fst (CheckExists (statusNetwork 301) newWorld ''acme.cloudfront.net''))
   \<and> CheckTarget_hostname (TargetURL cloudFrontTarget) = ''acme.cloudfront.net''
   \<and> map_option AssetStatus (fst (CheckTarget (statusNetwork 301) newWorld cloudFrontTarget)) = Some 301
   \<and> map_option Accessible (fst (CheckTarget (statusNetwork 301) newWorld cloudFrontTarget)) = Some True
   \<and> cloudWorker_report (fst (CheckTarget (statusNetwork 301) newWorld cloudFrontTarget))
        ''2026-01-01T00:00:00Z'' = None
   \<and> results (cloudWorker newEngine (fst (CheckTarget (statusNetwork 301) newWorld cloudFrontTarget))
                ''2026-01-01T00:00:00Z'') = []"
  by code_simp

subsection \<open>Run statistics\<close>


















text \<open>
  The S3 worker of the storage engine stops the process on a result whose URL teaches a
  candidate: the counter has been raised and the result sent before the panic.
\<close>

lemma omniS3Worker_panics_on_learned_candidate:
  "crashed (omniS3Worker newEngine
              (Some (acmeBucketResult\<lparr>URL := ''http://acme-prod.s3.amazonaws.com''\<rparr>), None)
              ''2026-01-01T00:00:00Z'') = Some SendOnClosedChannel
   \<and> checked (omniS3Worker newEngine
              (Some (acmeBucketResult\<lparr>URL := ''http://acme-prod.s3.amazonaws.com''\<rparr>), None)
              ''2026-01-01T00:00:00Z'') = 1
   \<and> length (results (omniS3Worker newEngine
              (Some (acmeBucketResult\<lparr>URL := ''http://acme-prod.s3.amazonaws.com''\<rparr>), None)
              ''2026-01-01T00:00:00Z'')) = 1"
  by code_simp



section \<open>Properties of the attribution index\<close>

lemma Insert_walk_returns:
  "k + i \<le> 8 * length bits \<Longrightarrow> \<exists>n. Insert_walk bits v k i node = Inr n"
proof (induction k arbitrary: i node)
  case 0
  then show ?case by simp
next
  case (Suc k)
  have inb: "i div 8 < length bits" using Suc.prems by auto
  let ?b = "bitOf bits i"
  let ?next = "case children node ?b of None \<Rightarrow> emptyNode | Some c \<Rightarrow> c"
  have "k + Suc i \<le> 8 * length bits" using Suc.prems by simp
  then obtain n where "Insert_walk bits v k (Suc i) ?next = Inr n"
    using Suc.IH by blast
  then show ?case using inb by (simp add: Let_def)
qed

lemma Insert_returns:
  "insertable lib cidr \<Longrightarrow> \<exists>t'. Insert lib t cidr v = Inr t'"
proof (cases "ParseCIDR lib cidr")
  case None
  then show ?thesis by (simp add: Insert_def)
next
  case (Some n)
  assume "insertable lib cidr"
  then have "MaskOnes n + 0 \<le> 8 * length (ipToBits (NetIP n))"
    using Some by (simp add: insertable_def)
  then obtain r where "Insert_walk (ipToBits (NetIP n)) v (MaskOnes n) 0 (root t) = Inr r"
    using Insert_walk_returns by blast
  then show ?thesis using Some by (simp add: Insert_def Let_def)
qed

lemma Insert_all_returns:
  "list_all (\<lambda>(cidr, v). insertable lib cidr) entries \<Longrightarrow> \<exists>t'. Insert_all lib t entries = Inr t'"
proof (induction entries arbitrary: t)
  case Nil
  then show ?case by simp
next
  case (Cons entry entries)
  obtain cidr v where e: "entry = (cidr, v)" by (cases entry)
  then have "insertable lib cidr" using Cons.prems by simp
  then obtain t1 where t1: "Insert lib t cidr v = Inr t1" using Insert_returns by blast
  have "list_all (\<lambda>(cidr, v). insertable lib cidr) entries" using Cons.prems by simp
  then obtain t' where "Insert_all lib t1 entries = Inr t'" using Cons.IH by blast
  then show ?case using e t1 by simp
qed

lemma loadAWS_returns:
  "entriesInsertable lib awsEntries (awsFile fs path) \<Longrightarrow>
   \<exists>m' err. loadAWS lib fs m path = Inr (m', err) \<and> azure m' = azure m \<and> gcp m' = gcp m
     \<and> (unreadable (awsFile fs path) \<longrightarrow> aws m' = aws m)"
proof (cases "awsFile fs path")
  case (Document doc)
  assume "entriesInsertable lib awsEntries (awsFile fs path)"
  then have "list_all (\<lambda>(cidr, v). insertable lib cidr) (awsEntries doc)"
    using Document by (simp add: entriesInsertable_def)
  then obtain t where "Insert_all lib (aws m) (awsEntries doc) = Inr t"
    using Insert_all_returns by blast
  then show ?thesis using Document by (simp add: loadAWS_def unreadable_def)
qed (simp_all add: loadAWS_def unreadable_def)

lemma loadAzure_returns:
  "entriesInsertable lib azureEntries (azureFile fs path) \<Longrightarrow>
   \<exists>m' err. loadAzure lib fs m path = Inr (m', err) \<and> aws m' = aws m \<and> gcp m' = gcp m
     \<and> (unreadable (azureFile fs path) \<longrightarrow> azure m' = azure m)"
proof (cases "azureFile fs path")
  case (Document doc)
  assume "entriesInsertable lib azureEntries (azureFile fs path)"
  then have "list_all (\<lambda>(cidr, v). insertable lib cidr) (azureEntries doc)"
    using Document by (simp add: entriesInsertable_def)
  then obtain t where "Insert_all lib (azure m) (azureEntries doc) = Inr t"
    using Insert_all_returns by blast
  then show ?thesis using Document by (simp add: loadAzure_def unreadable_def)
qed (simp_all add: loadAzure_def unreadable_def)

lemma loadGCP_returns:
  "entriesInsertable lib gcpEntries (gcpFile fs path) \<Longrightarrow>
   \<exists>m' err. loadGCP lib fs m path = Inr (m', err) \<and> aws m' = aws m \<and> azure m' = azure m
     \<and> (unreadable (gcpFile fs path) \<longrightarrow> gcp m' = gcp m)"
proof (cases "gcpFile fs path")
  case (Document doc)
  assume "entriesInsertable lib gcpEntries (gcpFile fs path)"
  then have "list_all (\<lambda>(cidr, v). insertable lib cidr) (gcpEntries doc)"
    using Document by (simp add: entriesInsertable_def)
  then obtain t where "Insert_all lib (gcp m) (gcpEntries doc) = Inr t"
    using Insert_all_returns by blast
  then show ?thesis using Document by (simp add: loadGCP_def unreadable_def)
qed (simp_all add: loadGCP_def unreadable_def)

lemma LoadFromDirectory_returns:
  assumes "loadable lib fs dataDir"
  shows "\<exists>m'. LoadFromDirectory lib fs m dataDir = Inr (m', None)
     \<and> (unreadable (awsFile fs (dataDir @ ''/aws_cloud.json'')) \<longrightarrow> aws m' = aws m)
     \<and> (unreadable (azureFile fs (dataDir @ ''/azure_cloud.json'')) \<longrightarrow> azure m' = azure m)
     \<and> (unreadable (gcpFile fs (dataDir @ ''/gcp_cloud.json'')) \<longrightarrow> gcp m' = gcp m)"
proof -
  from assms obtain m1 e1 where
    l1: "loadAWS lib fs m (dataDir @ ''/aws_cloud.json'') = Inr (m1, e1)"
      "azure m1 = azure m" "gcp m1 = gcp m"
      "unreadable (awsFile fs (dataDir @ ''/aws_cloud.json'')) \<longrightarrow> aws m1 = aws m"
    using loadAWS_returns [of lib fs "dataDir @ ''/aws_cloud.json''" m]
    by (auto simp: loadable_def)
  from assms obtain m2 e2 where
    l2: "loadAzure lib fs m1 (dataDir @ ''/azure_cloud.json'') = Inr (m2, e2)"
      "aws m2 = aws m1" "gcp m2 = gcp m1"
      "unreadable (azureFile fs (dataDir @ ''/azure_cloud.json'')) \<longrightarrow> azure m2 = azure m1"
    using loadAzure_returns [of lib fs "dataDir @ ''/azure_cloud.json''" m1]
    by (auto simp: loadable_def)
  from assms obtain m3 e3 where
    l3: "loadGCP lib fs m2 (dataDir @ ''/gcp_cloud.json'') = Inr (m3, e3)"
      "aws m3 = aws m2" "azure m3 = azure m2"
      "unreadable (gcpFile fs (dataDir @ ''/gcp_cloud.json'')) \<longrightarrow> gcp m3 = gcp m2"
    using loadGCP_returns [of lib fs "dataDir @ ''/gcp_cloud.json''" m2]
    by (auto simp: loadable_def)
  have "LoadFromDirectory lib fs m dataDir = Inr (m3, None)"
    using l1(1) l2(1) l3(1) by (simp add: LoadFromDirectory_def)
  then show ?thesis using l1 l2 l3 by simp
qed

text \<open>
  What the loaders do for the data they skip. A CIDR text that does not parse leaves the
  trie as it is: the same nodes and the same count, hence the same answer to every
  lookup. When the entries of the files that do decode are insertable, a load completes
  without a panic and returns no error, and a provider whose file is missing or does not
  decode keeps the empty trie it had.
\<close>

lemma malformed_cidr_and_dataset_skipped:
  "(ParseCIDR lib cidr = None \<longrightarrow> Insert lib t cidr v = Inr t)
   \<and> (loadable lib fs dataDir \<longrightarrow>
        \<not> isl (LoadFromDirectory lib fs NewNetMapper dataDir)
        \<and> snd (projr (LoadFromDirectory lib fs NewNetMapper dataDir)) = None
        \<and> (unreadable (awsFile fs (dataDir @ ''/aws_cloud.json''))
             \<longrightarrow> aws (fst (projr (LoadFromDirectory lib fs NewNetMapper dataDir))) = NewIPTrie)
        \<and> (unreadable (azureFile fs (dataDir @ ''/azure_cloud.json''))
             \<longrightarrow> azure (fst (projr (LoadFromDirectory lib fs NewNetMapper dataDir))) = NewIPTrie)
        \<and> (unreadable (gcpFile fs (dataDir @ ''/gcp_cloud.json''))
             \<longrightarrow> gcp (fst (projr (LoadFromDirectory lib fs NewNetMapper dataDir))) = NewIPTrie))"
proof (intro conjI impI)
  assume "ParseCIDR lib cidr = None"
  then show "Insert lib t cidr v = Inr t" by (simp add: Insert_def)
next
  assume l: "loadable lib fs dataDir"
  obtain m' where m': "LoadFromDirectory lib fs NewNetMapper dataDir = Inr (m', None)"
    and keep: "unreadable (awsFile fs (dataDir @ ''/aws_cloud.json'')) \<longrightarrow> aws m' = aws NewNetMapper"
      "unreadable (azureFile fs (dataDir @ ''/azure_cloud.json'')) \<longrightarrow> azure m' = azure NewNetMapper"
      "unreadable (gcpFile fs (dataDir @ ''/gcp_cloud.json'')) \<longrightarrow> gcp m' = gcp NewNetMapper"
    using LoadFromDirectory_returns [OF l, of NewNetMapper] by blast
  show "\<not> isl (LoadFromDirectory lib fs NewNetMapper dataDir)" using m' by simp
  show "snd (projr (LoadFromDirectory lib fs NewNetMapper dataDir)) = None" using m' by simp
  { assume "unreadable (awsFile fs (dataDir @ ''/aws_cloud.json''))"
    then show "aws (fst (projr (LoadFromDirectory lib fs NewNetMapper dataDir))) = NewIPTrie"
      using m' keep by (simp add: NewNetMapper_def) }
  { assume "unreadable (azureFile fs (dataDir @ ''/azure_cloud.json''))"
    then show "azure (fst (projr (LoadFromDirectory lib fs NewNetMapper dataDir))) = NewIPTrie"
      using m' keep by (simp add: NewNetMapper_def) }
  { assume "unreadable (gcpFile fs (dataDir @ ''/gcp_cloud.json''))"
    then show "gcp (fst (projr (LoadFromDirectory lib fs NewNetMapper dataDir))) = NewIPTrie"
      using m' keep by (simp add: NewNetMapper_def) }
qed

lemma broken_loadable: "loadable sampleLib sampleFiles ''broken''"
  by code_simp

lemma broken_unreadable:
  "unreadable (awsFile sampleFiles (''broken'' @ ''/aws_cloud.json''))
   \<and> \<not> unreadable (azureFile sampleFiles (''broken'' @ ''/azure_cloud.json''))
   \<and> unreadable (gcpFile sampleFiles (''broken'' @ ''/gcp_cloud.json''))"
  by code_simp

lemma broken_azure_count:
  "count (azure (fst (projr (LoadFromDirectory sampleLib sampleFiles NewNetMapper ''broken'')))) = 2"
  by code_simp

lemma malformed_cidr_and_dataset_skipped_example:
  "ParseCIDR sampleLib ''not-a-cidr'' = None
   \<and> Insert sampleLib awsTrie ''not-a-cidr''
        \<lparr>InfoProvider = ''AWS'', InfoService = ''EC2'', InfoRegion = ''us-east-1'',
         NetworkType = ''us-east-1'', CIDR = ''not-a-cidr''\<rparr> = Inr awsTrie
   \<and> loadable sampleLib sampleFiles ''broken''
   \<and> unreadable (awsFile sampleFiles (''broken'' @ ''/aws_cloud.json''))
   \<and> unreadable (gcpFile sampleFiles (''broken'' @ ''/gcp_cloud.json''))
   \<and> \<not> isl (LoadFromDirectory sampleLib sampleFiles NewNetMapper ''broken'')
   \<and> snd (projr (LoadFromDirectory sampleLib sampleFiles NewNetMapper ''broken'')) = None
   \<and> aws (fst (projr (LoadFromDirectory sampleLib sampleFiles NewNetMapper ''broken''))) = NewIPTrie
   \<and> gcp (fst (projr (LoadFromDirectory sampleLib sampleFiles NewNetMapper ''broken''))) = NewIPTrie
   \<and> count (azure (fst (projr (LoadFromDirectory sampleLib sampleFiles NewNetMapper ''broken'')))) = 2
   \<and> loadable sampleLib sampleFiles ''nowhere''
   \<and> unreadable (azureFile sampleFiles (''nowhere'' @ ''/azure_cloud.json''))
   \<and> \<not> isl (LoadFromDirectory sampleLib sampleFiles NewNetMapper ''nowhere'')
   \<and> azure (fst (projr (LoadFromDirectory sampleLib sampleFiles NewNetMapper ''nowhere''))) = NewIPTrie"
proof -
  have p: "ParseCIDR sampleLib ''not-a-cidr'' = None" by code_simp
  have q: "loadable sampleLib sampleFiles ''nowhere''
           \<and> unreadable (azureFile sampleFiles (''nowhere'' @ ''/azure_cloud.json''))"
    by code_simp
  have r: "\<not> isl (LoadFromDirectory sampleLib sampleFiles NewNetMapper ''nowhere'')
           \<and> azure (fst (projr (LoadFromDirectory sampleLib sampleFiles NewNetMapper ''nowhere''))) = NewIPTrie"
    using malformed_cidr_and_dataset_skipped
            [where lib = sampleLib and fs = sampleFiles and dataDir = "''nowhere''"] q
    by simp
  show ?thesis
    using r q malformed_cidr_and_dataset_skipped
            [where lib = sampleLib and cidr = "''not-a-cidr''" and t = awsTrie
               and fs = sampleFiles and dataDir = "''broken''"
               and v = "\<lparr>InfoProvider = ''AWS'', InfoService = ''EC2'', InfoRegion = ''us-east-1'',
                          NetworkType = ''us-east-1'', CIDR = ''not-a-cidr''\<rparr>"]
          p broken_loadable broken_unreadable broken_azure_count
    by simp
qed

text \<open>
  The bound on the prefix length is needed: an IPv4-mapped IPv6 prefix parses, \<open>ipToBits\<close>
  reduces its address to 4 bytes, and the walk over its 104 mask bits reads beyond them.
\<close>

lemma Insert_mapped_prefix_panics:
  "\<not> insertable sampleLib ''::ffff:10.0.0.0/104''
   \<and> Insert sampleLib NewIPTrie ''::ffff:10.0.0.0/104'' v = Inl IndexOutOfRange"
  by code_simp

text \<open>
  Claim C9 at an input where the code departs from it. In the directory \<open>mapped\<close> the AWS
  file and the GCP file are missing, and the Azure file decodes and lists the one range
  \<open>::ffff:10.0.0.0/104\<close>. The claim has the load complete without error with the AWS and
  GCP indexes empty. The range parses to a 16-byte network address with a mask of 104
  bits, \<open>ipToBits\<close> reduces the address to the 4 bytes \<open>10.0.0.0\<close>, and \<open>Insert\<close> reads
  \<open>bits[4]\<close> at the 33rd mask bit: the load ends in the panic ``index out of range''
  and returns nothing, so no index is left to the caller.
\<close>

theorem LoadFromDirectory_panics_on_mapped_prefix:
  "unreadable (awsFile sampleFiles (''mapped'' @ ''/aws_cloud.json''))
   \<and> azureFile sampleFiles (''mapped'' @ ''/azure_cloud.json'') = Document mappedAzure
   \<and> map fst (azureEntries mappedAzure) = [''::ffff:10.0.0.0/104'']
   \<and> ParseCIDR sampleLib ''::ffff:10.0.0.0/104''
       = Some \<lparr>NetIP = [0, 0, 0, 0, 0, 0, 0, 0, 0, 0, 255, 255, 10, 0, 0, 0], MaskOnes = 104\<rparr>
   \<and> ipToBits [0, 0, 0, 0, 0, 0, 0, 0, 0, 0, 255, 255, 10, 0, 0, 0] = [10, 0, 0, 0]
   \<and> unreadable (gcpFile sampleFiles (''mapped'' @ ''/gcp_cloud.json''))
   \<and> LoadFromDirectory sampleLib sampleFiles NewNetMapper ''mapped'' = Inl IndexOutOfRange"
  by code_simp

text \<open>
  The order of the tries. \<open>NetMapper.Lookup\<close> answers with the match of the AWS trie when
  there is one, otherwise with the match of the Azure trie when there is one, otherwise
  with the answer of the GCP trie; a text that is not an IP address gets no answer.
\<close>

lemma NetMapper_Lookup_provider_order:
  "(ParseIP lib ipStr = None \<longrightarrow> NetMapper_Lookup lib m ipStr = None)
   \<and> (ParseIP lib ipStr = Some ip \<and> Lookup (aws m) ip = Some v
        \<longrightarrow> NetMapper_Lookup lib m ipStr = Some v)
   \<and> (ParseIP lib ipStr = Some ip \<and> Lookup (aws m) ip = None \<and> Lookup (azure m) ip = Some v
        \<longrightarrow> NetMapper_Lookup lib m ipStr = Some v)
   \<and> (ParseIP lib ipStr = Some ip \<and> Lookup (aws m) ip = None \<and> Lookup (azure m) ip = None
        \<longrightarrow> NetMapper_Lookup lib m ipStr = Lookup (gcp m) ip)"
  by (auto simp: NetMapper_Lookup_def split: option.splits)

lemma NetMapper_Lookup_provider_order_example:
  "ParseIP sampleLib ''bogus'' = None
   \<and> NetMapper_Lookup sampleLib sampleMapper ''bogus'' = None
   \<and> ParseIP sampleLib ''10.1.2.3'' = Some [0, 0, 0, 0, 0, 0, 0, 0, 0, 0, 255, 255, 10, 1, 2, 3]
   \<and> Lookup (aws sampleMapper) [0, 0, 0, 0, 0, 0, 0, 0, 0, 0, 255, 255, 10, 1, 2, 3] = Some 
        \<lparr>InfoProvider = ''AWS'', InfoService = ''EC2'', InfoRegion = ''us-east-1'',
          NetworkType = ''us-east-1'', CIDR = ''10.0.0.0/8''\<rparr>
   \<and> Lookup (azure sampleMapper) [0, 0, 0, 0, 0, 0, 0, 0, 0, 0, 255, 255, 10, 1, 2, 3] = Some 
        \<lparr>InfoProvider = ''Azure'', InfoService = ''AzureStorage'', InfoRegion = ''westeurope'',
          NetworkType = ''Azure'', CIDR = ''10.1.0.0/16''\<rparr>
   \<and> Lookup (gcp sampleMapper) [0, 0, 0, 0, 0, 0, 0, 0, 0, 0, 255, 255, 10, 1, 2, 3] = Some 
        \<lparr>InfoProvider = ''GCP'', InfoService = ''Google Cloud'', InfoRegion = ''us-central1'',
          NetworkType = ''Google Cloud'', CIDR = ''10.1.2.0/24''\<rparr>
   \<and> NetMapper_Lookup sampleLib sampleMapper ''10.1.2.3'' = Some 
        \<lparr>InfoProvider = ''AWS'', InfoService = ''EC2'', InfoRegion = ''us-east-1'',
          NetworkType = ''us-east-1'', CIDR = ''10.0.0.0/8''\<rparr>
   \<and> ParseIP sampleLib ''20.1.2.3'' = Some [0, 0, 0, 0, 0, 0, 0, 0, 0, 0, 255, 255, 20, 1, 2, 3]
   \<and> Lookup (aws sampleMapper) [0, 0, 0, 0, 0, 0, 0, 0, 0, 0, 255, 255, 20, 1, 2, 3] = None
   \<and> Lookup (azure sampleMapper) [0, 0, 0, 0, 0, 0, 0, 0, 0, 0, 255, 255, 20, 1, 2, 3] = Some 
        \<lparr>InfoProvider = ''Azure'', InfoService = ''AzureStorage'', InfoRegion = ''westeurope'',
          NetworkType = ''Azure'', CIDR = ''20.0.0.0/8''\<rparr>
   \<and> Lookup (gcp sampleMapper) [0, 0, 0, 0, 0, 0, 0, 0, 0, 0, 255, 255, 20, 1, 2, 3] = Some 
        \<lparr>InfoProvider = ''GCP'', InfoService = ''Google Cloud'', InfoRegion = ''europe-west1'',
          NetworkType = ''Google Cloud'', CIDR = ''20.1.0.0/16''\<rparr>
   \<and> NetMapper_Lookup sampleLib sampleMapper ''20.1.2.3'' = Some 
        \<lparr>InfoProvider = ''Azure'', InfoService = ''AzureStorage'', InfoRegion = ''westeurope'',
          NetworkType = ''Azure'', CIDR = ''20.0.0.0/8''\<rparr>
   \<and> ParseIP sampleLib ''34.1.2.3'' = Some [0, 0, 0, 0, 0, 0, 0, 0, 0, 0, 255, 255, 34, 1, 2, 3]
   \<and> Lookup (aws sampleMapper) [0, 0, 0, 0, 0, 0, 0, 0, 0, 0, 255, 255, 34, 1, 2, 3] = None
   \<and> Lookup (azure sampleMapper) [0, 0, 0, 0, 0, 0, 0, 0, 0, 0, 255, 255, 34, 1, 2, 3] = None
   \<and> Lookup (gcp sampleMapper) [0, 0, 0, 0, 0, 0, 0, 0, 0, 0, 255, 255, 34, 1, 2, 3] = Some 
        \<lparr>InfoProvider = ''GCP'', InfoService = ''Google Cloud'', InfoRegion = ''asia-east1'',
          NetworkType = ''Google Cloud'', CIDR = ''34.0.0.0/8''\<rparr>
   \<and> NetMapper_Lookup sampleLib sampleMapper ''34.1.2.3'' = Some 
        \<lparr>InfoProvider = ''GCP'', InfoService = ''Google Cloud'', InfoRegion = ''asia-east1'',
          NetworkType = ''Google Cloud'', CIDR = ''34.0.0.0/8''\<rparr>"
proof -
  have p0: "ParseIP sampleLib ''bogus'' = None" by code_simp
  have p1: "ParseIP sampleLib ''10.1.2.3'' = Some [0, 0, 0, 0, 0, 0, 0, 0, 0, 0, 255, 255, 10, 1, 2, 3]" by code_simp
  have p2: "ParseIP sampleLib ''20.1.2.3'' = Some [0, 0, 0, 0, 0, 0, 0, 0, 0, 0, 255, 255, 20, 1, 2, 3]" by code_simp
  have p3: "ParseIP sampleLib ''34.1.2.3'' = Some [0, 0, 0, 0, 0, 0, 0, 0, 0, 0, 255, 255, 34, 1, 2, 3]" by code_simp
  have a1: "Lookup (aws sampleMapper) [0, 0, 0, 0, 0, 0, 0, 0, 0, 0, 255, 255, 10, 1, 2, 3] = Some 
        \<lparr>InfoProvider = ''AWS'', InfoService = ''EC2'', InfoRegion = ''us-east-1'',
          NetworkType = ''us-east-1'', CIDR = ''10.0.0.0/8''\<rparr>" by code_simp
  have z1: "Lookup (azure sampleMapper) [0, 0, 0, 0, 0, 0, 0, 0, 0, 0, 255, 255, 10, 1, 2, 3] = Some 
        \<lparr>InfoProvider = ''Azure'', InfoService = ''AzureStorage'', InfoRegion = ''westeurope'',
          NetworkType = ''Azure'', CIDR = ''10.1.0.0/16''\<rparr>" by code_simp
  have g1: "Lookup (gcp sampleMapper) [0, 0, 0, 0, 0, 0, 0, 0, 0, 0, 255, 255, 10, 1, 2, 3] = Some 
        \<lparr>InfoProvider = ''GCP'', InfoService = ''Google Cloud'', InfoRegion = ''us-central1'',
          NetworkType = ''Google Cloud'', CIDR = ''10.1.2.0/24''\<rparr>" by code_simp
  have a2: "Lookup (aws sampleMapper) [0, 0, 0, 0, 0, 0, 0, 0, 0, 0, 255, 255, 20, 1, 2, 3] = None" by code_simp
  have z2: "Lookup (azure sampleMapper) [0, 0, 0, 0, 0, 0, 0, 0, 0, 0, 255, 255, 20, 1, 2, 3] = Some 
        \<lparr>InfoProvider = ''Azure'', InfoService = ''AzureStorage'', InfoRegion = ''westeurope'',
          NetworkType = ''Azure'', CIDR = ''20.0.0.0/8''\<rparr>" by code_simp
  have g2: "Lookup (gcp sampleMapper) [0, 0, 0, 0, 0, 0, 0, 0, 0, 0, 255, 255, 20, 1, 2, 3] = Some 
        \<lparr>InfoProvider = ''GCP'', InfoService = ''Google Cloud'', InfoRegion = ''europe-west1'',
          NetworkType = ''Google Cloud'', CIDR = ''20.1.0.0/16''\<rparr>" by code_simp
  have a3: "Lookup (aws sampleMapper) [0, 0, 0, 0, 0, 0, 0, 0, 0, 0, 255, 255, 34, 1, 2, 3] = None" by code_simp
  have z3: "Lookup (azure sampleMapper) [0, 0, 0, 0, 0, 0, 0, 0, 0, 0, 255, 255, 34, 1, 2, 3] = None" by code_simp
  have g3: "Lookup (gcp sampleMapper) [0, 0, 0, 0, 0, 0, 0, 0, 0, 0, 255, 255, 34, 1, 2, 3] = Some 
        \<lparr>InfoProvider = ''GCP'', InfoService = ''Google Cloud'', InfoRegion = ''asia-east1'',
          NetworkType = ''Google Cloud'', CIDR = ''34.0.0.0/8''\<rparr>" by code_simp
  note order = NetMapper_Lookup_provider_order [where lib = sampleLib and m = sampleMapper]
  have r0: "NetMapper_Lookup sampleLib sampleMapper ''bogus'' = None"
    using order [where ipStr = "''bogus''"] p0 by simp
  have r1: "NetMapper_Lookup sampleLib sampleMapper ''10.1.2.3'' = Some 
        \<lparr>InfoProvider = ''AWS'', InfoService = ''EC2'', InfoRegion = ''us-east-1'',
          NetworkType = ''us-east-1'', CIDR = ''10.0.0.0/8''\<rparr>"
    using NetMapper_Lookup_provider_order
            [where lib = sampleLib and m = sampleMapper and ipStr = "''10.1.2.3''" and ip = "[0, 0, 0, 0, 0, 0, 0, 0, 0, 0, 255, 255, 10, 1, 2, 3]"
               and v = "
        \<lparr>InfoProvider = ''AWS'', InfoService = ''EC2'', InfoRegion = ''us-east-1'',
          NetworkType = ''us-east-1'', CIDR = ''10.0.0.0/8''\<rparr>"] p1 a1 by simp
  have r2: "NetMapper_Lookup sampleLib sampleMapper ''20.1.2.3'' = Some 
        \<lparr>InfoProvider = ''Azure'', InfoService = ''AzureStorage'', InfoRegion = ''westeurope'',
          NetworkType = ''Azure'', CIDR = ''20.0.0.0/8''\<rparr>"
    using NetMapper_Lookup_provider_order
            [where lib = sampleLib and m = sampleMapper and ipStr = "''20.1.2.3''" and ip = "[0, 0, 0, 0, 0, 0, 0, 0, 0, 0, 255, 255, 20, 1, 2, 3]"
               and v = "
        \<lparr>InfoProvider = ''Azure'', InfoService = ''AzureStorage'', InfoRegion = ''westeurope'',
          NetworkType = ''Azure'', CIDR = ''20.0.0.0/8''\<rparr>"] p2 a2 z2 by simp
  have r3: "NetMapper_Lookup sampleLib sampleMapper ''34.1.2.3'' = Some 
        \<lparr>InfoProvider = ''GCP'', InfoService = ''Google Cloud'', InfoRegion = ''asia-east1'',
          NetworkType = ''Google Cloud'', CIDR = ''34.0.0.0/8''\<rparr>"
    using NetMapper_Lookup_provider_order
            [where lib = sampleLib and m = sampleMapper and ipStr = "''34.1.2.3''" and ip = "[0, 0, 0, 0, 0, 0, 0, 0, 0, 0, 255, 255, 34, 1, 2, 3]"]
          p3 a3 z3 g3 by simp
  show ?thesis using p0 p1 p2 p3 a1 z1 g1 a2 z2 g2 a3 z3 g3 r0 r1 r2 r3 by simp
qed

subsection \<open>Longest-prefix match\<close>

lemma pathOf_0 [simp]: "pathOf bits i 0 = []"
  by (simp add: pathOf_def)

lemma pathOf_Suc: "pathOf bits i (Suc k) = (bitOf bits i \<noteq> 0) # pathOf bits (Suc i) k"
  by (simp add: pathOf_def upt_rec)

lemma length_pathOf [simp]: "length (pathOf bits i k) = k"
  by (simp add: pathOf_def)

lemma children_child: "children node (bitOf bits i) = child node (bitOf bits i \<noteq> 0)"
  by (simp add: children_def child_def)

lemma infoAt_emptyNode [simp]: "infoAt emptyNode q = None"
  by (cases q) (simp_all add: emptyNode_def child_def)

lemma child_setChild:
  "child (setChild node b c) b' = (if b' = (b \<noteq> 0) then Some c else child node b')"
  by (simp add: setChild_def child_def)

lemma info_setChild [simp]: "info (setChild node b c) = info node"
  by (simp add: setChild_def)

lemma Insert_walk_infoAt:
  "Insert_walk bits v k i node = Inr n \<Longrightarrow>
   infoAt n q = (if q = pathOf bits i k then Some v else infoAt node q)"
proof (induction k arbitrary: i node n q)
  case 0
  then show ?case by (cases q) (auto simp: child_def)
next
  case (Suc k)
  let ?b = "bitOf bits i"
  let ?next = "case children node ?b of None \<Rightarrow> emptyNode | Some c \<Rightarrow> c"
  from Suc.prems obtain c where
    c: "Insert_walk bits v k (Suc i) ?next = Inr c" and n: "n = setChild node ?b c"
    by (auto simp: Let_def split: if_splits sum.splits)
  note ih = Suc.IH [OF c]
  have nx: "\<And>q'. infoAt ?next q' = infoAt node ((?b \<noteq> 0) # q')"
    by (simp add: children_child split: option.splits)
  show ?case
  proof (cases q)
    case Nil
    then show ?thesis using n by (simp add: pathOf_Suc)
  next
    case (Cons b' q')
    show ?thesis
    proof (cases "b' = (?b \<noteq> 0)")
      case True
      then show ?thesis using Cons n ih [of q'] nx [of q']
        by (simp add: pathOf_Suc child_setChild)
    next
      case False
      then show ?thesis using Cons n
        by (auto simp: pathOf_Suc child_setChild)
    qed
  qed
qed

lemma Lookup_walk_deepest:
  "Lookup_walk bits k i node lastMatch
     = (case deepest node (pathOf bits i k) of Some v \<Rightarrow> Some v | None \<Rightarrow> lastMatch)"
proof (induction k arbitrary: i node lastMatch)
  case 0
  then show ?case by (simp add: remember_def)
next
  case (Suc k)
  show ?case
    by (simp add: pathOf_Suc Let_def children_child Suc.IH remember_def split: option.splits)
qed


lemma infoAt_Cons_child:
  "child node b = Some c \<Longrightarrow> infoAt node (b # q) = infoAt c q"
  by simp

lemma deepest_None:
  "(deepest node p = None) = (\<forall>m \<le> length p. infoAt node (take m p) = None)"
proof (induction p arbitrary: node)
  case Nil
  then show ?case by simp
next
  case (Cons b bs)
  show ?case
  proof (cases "child node b")
    case None
    have "\<And>m. m \<le> length (b # bs) \<Longrightarrow>
            (infoAt node (take m (b # bs)) = None) = (m = 0 \<longrightarrow> info node = None)"
      using None by (case_tac m) simp_all
    then show ?thesis using None by auto
  next
    case (Some c)
    have step: "\<And>m. infoAt node (take (Suc m) (b # bs)) = infoAt c (take m bs)"
      using Some by simp
    have "(\<forall>m \<le> length (b # bs). infoAt node (take m (b # bs)) = None)
            = (info node = None \<and> (\<forall>m \<le> length bs. infoAt c (take m bs) = None))"
    proof
      assume a: "\<forall>m \<le> length (b # bs). infoAt node (take m (b # bs)) = None"
      have "info node = None" using a [rule_format, of 0] by simp
      moreover have "\<forall>m \<le> length bs. infoAt c (take m bs) = None"
      proof (intro allI impI)
        fix m assume "m \<le> length bs"
        then show "infoAt c (take m bs) = None" using a [rule_format, of "Suc m"] step by simp
      qed
      ultimately show "info node = None \<and> (\<forall>m \<le> length bs. infoAt c (take m bs) = None)" by simp
    next
      assume a: "info node = None \<and> (\<forall>m \<le> length bs. infoAt c (take m bs) = None)"
      show "\<forall>m \<le> length (b # bs). infoAt node (take m (b # bs)) = None"
      proof (intro allI impI)
        fix m assume m: "m \<le> length (b # bs)"
        show "infoAt node (take m (b # bs)) = None"
        proof (cases m)
          case 0
          then show ?thesis using a by simp
        next
          case (Suc m')
          then show ?thesis using a m step [of m'] by simp
        qed
      qed
    qed
    moreover have "(deepest node (b # bs) = None) = (info node = None \<and> deepest c bs = None)"
      using Some by (cases "deepest c bs") simp_all
    ultimately show ?thesis using Cons.IH [of c] by blast
  qed
qed

lemma deepest_Some:
  "deepest node p = Some v \<Longrightarrow>
   \<exists>m \<le> length p. infoAt node (take m p) = Some v
      \<and> (\<forall>m'. m < m' \<and> m' \<le> length p \<longrightarrow> infoAt node (take m' p) = None)"
proof (induction p arbitrary: node)
  case Nil
  then show ?case by simp
next
  case (Cons b bs)
  show ?case
  proof (cases "child node b")
    case None
    then have v: "info node = Some v" using Cons.prems by simp
    have "\<forall>m'. 0 < m' \<and> m' \<le> length (b # bs) \<longrightarrow> infoAt node (take m' (b # bs)) = None"
    proof (intro allI impI)
      fix m' assume "0 < m' \<and> m' \<le> length (b # bs)"
      then obtain k where "m' = Suc k" by (cases m') auto
      then show "infoAt node (take m' (b # bs)) = None" using None by simp
    qed
    then show ?thesis using v by (intro exI [of _ 0]) simp
  next
    case (Some c)
    have step: "\<And>m. infoAt node (take (Suc m) (b # bs)) = infoAt c (take m bs)"
      using Some by simp
    show ?thesis
    proof (cases "deepest c bs")
      case None
      then have v: "info node = Some v" using Cons.prems Some by simp
      have none: "\<forall>m \<le> length bs. infoAt c (take m bs) = None"
        using None deepest_None [of c bs] by simp
      have "\<forall>m'. 0 < m' \<and> m' \<le> length (b # bs) \<longrightarrow> infoAt node (take m' (b # bs)) = None"
      proof (intro allI impI)
        fix m' assume a: "0 < m' \<and> m' \<le> length (b # bs)"
        then obtain k where k: "m' = Suc k" by (cases m') auto
        then show "infoAt node (take m' (b # bs)) = None" using a none step [of k] by simp
      qed
      then show ?thesis using v by (intro exI [of _ 0]) simp
    next
      case (Some w)
      then have "w = v" using Cons.prems \<open>child node b = Some c\<close> by simp
      then obtain m where m: "m \<le> length bs" "infoAt c (take m bs) = Some v"
        "\<forall>m'. m < m' \<and> m' \<le> length bs \<longrightarrow> infoAt c (take m' bs) = None"
        using Cons.IH [of c] Some by blast
      have "\<forall>m'. Suc m < m' \<and> m' \<le> length (b # bs) \<longrightarrow> infoAt node (take m' (b # bs)) = None"
      proof (intro allI impI)
        fix m' assume a: "Suc m < m' \<and> m' \<le> length (b # bs)"
        then obtain k where k: "m' = Suc k" by (cases m') auto
        then show "infoAt node (take m' (b # bs)) = None" using a m(3) step [of k] by simp
      qed
      then show ?thesis using m(1,2) step [of m] by (intro exI [of _ "Suc m"]) simp
    qed
  qed
qed


lemma bitOf_cases: "bitOf bits j = 0 \<or> bitOf bits j = 1"
  by (simp add: bitOf_def and_one_eq mod_2_eq_odd)

lemma bitOf_eq_iff: "((bitOf a j = 0) = (bitOf b j = 0)) = (bitOf a j = bitOf b j)"
  using bitOf_cases [of a j] bitOf_cases [of b j] by auto

lemma pathOf_eq_iff:
  "(pathOf a 0 k = pathOf b 0 m) = (k = m \<and> list_all (\<lambda>j. bitOf a j = bitOf b j) [0 ..< k])"
proof (cases "k = m")
  case True
  have "(pathOf a 0 k = pathOf b 0 k) = (\<forall>j \<in> set [0 ..< k]. (bitOf a j \<noteq> 0) = (bitOf b j \<noteq> 0))"
    unfolding pathOf_def by (simp only: add_0 map_eq_conv)
  then show ?thesis using True by (simp add: bitOf_eq_iff list_all_iff)
next
  case False
  have "length (pathOf a 0 k) \<noteq> length (pathOf b 0 m)" using False by simp
  then have "pathOf a 0 k \<noteq> pathOf b 0 m" by fastforce
  then show ?thesis using False by simp
qed

lemma take_pathOf: "m \<le> k \<Longrightarrow> take m (pathOf bits 0 k) = pathOf bits 0 m"
  by (simp add: pathOf_def take_map)

lemma ipToBits_addressBytes:
  "length ip = 4 \<or> length ip = 16 \<Longrightarrow> ipToBits ip = addressBytes ip"
  by (auto simp: ipToBits_def addressBytes_def To4_def To16_def)

lemma addressBytes_To16: "To16 ip = Some ip16 \<Longrightarrow> addressBytes ip16 = addressBytes ip"
  by (auto simp: addressBytes_def To4_def To16_def v4InV6Prefix_def split: if_splits)

lemma Lookup_bits_addressBytes: "Lookup_bits ip16 = addressBytes ip16"
  by (simp add: Lookup_bits_def addressBytes_def split: option.splits)

lemma covers_iff_path:
  assumes wf: "length (NetIP n) = 4 \<or> length (NetIP n) = 16"
  shows "covers n ip
         = (\<exists>m \<le> 8 * length (addressBytes ip).
              length (addressBytes (NetIP n)) = length (addressBytes ip)
              \<and> entryPath n = take m (pathOf (addressBytes ip) 0 (8 * length (addressBytes ip))))"
proof -
  let ?kb = "addressBytes ip"
  let ?nb = "addressBytes (NetIP n)"
  have ep: "entryPath n = pathOf ?nb 0 (MaskOnes n)"
    using wf by (simp add: entryPath_def ipToBits_addressBytes)
  have "(\<exists>m \<le> 8 * length ?kb. length ?nb = length ?kb
            \<and> entryPath n = take m (pathOf ?kb 0 (8 * length ?kb)))
        = (\<exists>m \<le> 8 * length ?kb. length ?nb = length ?kb
            \<and> pathOf ?nb 0 (MaskOnes n) = pathOf ?kb 0 m)"
    unfolding ep by (metis take_pathOf)
  also have "\<dots> = (length ?nb = length ?kb \<and> MaskOnes n \<le> 8 * length ?kb
                      \<and> list_all (\<lambda>j. bitOf ?nb j = bitOf ?kb j) [0 ..< MaskOnes n])"
    unfolding pathOf_eq_iff by auto
  finally show ?thesis by (simp add: covers_def)
qed

lemma Insert_ok_infoAt:
  "Insert lib t cidr v = Inr t' \<Longrightarrow>
   infoAt (root t') q =
     (case ParseCIDR lib cidr of
        None \<Rightarrow> infoAt (root t) q
      | Some n \<Rightarrow> if q = entryPath n then Some v else infoAt (root t) q)"
  by (auto simp: Insert_def Let_def entryPath_def Insert_walk_infoAt split: option.splits sum.splits)

lemma Insert_all_infoAt:
  "Insert_all lib t entries = Inr t' \<Longrightarrow>
   infoAt (root t') q =
     (case map_of (rev (map (\<lambda>(n, v). (entryPath n, v)) (parsedEntries lib entries))) q of
        Some v \<Rightarrow> Some v
      | None \<Rightarrow> infoAt (root t) q)"
proof (induction entries arbitrary: t)
  case Nil
  then show ?case by (simp add: parsedEntries_def)
next
  case (Cons entry entries)
  obtain cidr v where e: "entry = (cidr, v)" by (cases entry)
  from Cons.prems e obtain t1 where
    t1: "Insert lib t cidr v = Inr t1" and rest: "Insert_all lib t1 entries = Inr t'"
    by (auto split: sum.splits)
  note ih = Cons.IH [OF rest]
  note one = Insert_ok_infoAt [OF t1, of q]
  show ?case
  proof (cases "ParseCIDR lib cidr")
    case None
    then have "parsedEntries lib (entry # entries) = parsedEntries lib entries"
      using e by (simp add: parsedEntries_def)
    then show ?thesis using ih one None by (simp cong: option.case_cong)
  next
    case (Some n)
    then have "parsedEntries lib (entry # entries) = (n, v) # parsedEntries lib entries"
      using e by (simp add: parsedEntries_def)
    then show ?thesis using ih one Some
      by (simp add: map_add_def cong: option.case_cong split: option.splits)
  qed
qed


lemma length_entryPath [simp]: "length (entryPath n) = MaskOnes n"
  by (simp add: entryPath_def)

lemma Lookup_deepest:
  "To16 ip = Some ip16 \<Longrightarrow>
   Lookup t ip = deepest (root t) (pathOf (addressBytes ip) 0 (8 * length (addressBytes ip)))"
  by (simp add: Lookup_def Let_def Lookup_bits_addressBytes addressBytes_To16 Lookup_walk_deepest
        mult.commute split: option.splits)

lemma table_Some:
  "map_of (rev (map (\<lambda>(n, v). (entryPath n, v)) parsed)) q = Some v \<Longrightarrow>
   \<exists>n. (n, v) \<in> set parsed \<and> entryPath n = q"
proof -
  assume "map_of (rev (map (\<lambda>(n, v). (entryPath n, v)) parsed)) q = Some v"
  then have "(q, v) \<in> set (rev (map (\<lambda>(n, v). (entryPath n, v)) parsed))"
    by (rule map_of_SomeD)
  then show ?thesis by auto
qed

lemma table_defined:
  "(n, v) \<in> set parsed \<Longrightarrow>
   map_of (rev (map (\<lambda>(n, v). (entryPath n, v)) parsed)) (entryPath n) \<noteq> None"
proof -
  assume "(n, v) \<in> set parsed"
  then have "entryPath n \<in> fst ` set (rev (map (\<lambda>(n, v). (entryPath n, v)) parsed))"
    by force
  then show ?thesis by (simp only: map_of_eq_None_iff not_not)
qed

lemma Insert_all_table:
  assumes built: "Insert_all lib NewIPTrie entries = Inr t"
  shows "infoAt (root t) q = map_of (rev (map (\<lambda>(n, v). (entryPath n, v)) (parsedEntries lib entries))) q"
proof (cases "map_of (rev (map (\<lambda>(n, v). (entryPath n, v)) (parsedEntries lib entries))) q")
  case None
  then show ?thesis using Insert_all_infoAt [OF built, of q] by (simp add: NewIPTrie_def)
next
  case (Some v)
  then show ?thesis using Insert_all_infoAt [OF built, of q] by simp
qed

lemma length_key: "length (pathOf (addressBytes ip) 0 (8 * length (addressBytes ip))) = 8 * length (addressBytes ip)"
  by simp

lemma covers_iff_key_prefix:
  assumes wf: "length (NetIP n) = 4 \<or> length (NetIP n) = 16"
    and same: "length (addressBytes (NetIP n)) = length (addressBytes ip)"
  shows "covers n ip = (\<exists>m \<le> length (pathOf (addressBytes ip) 0 (8 * length (addressBytes ip))).
            entryPath n = take m (pathOf (addressBytes ip) 0 (8 * length (addressBytes ip))))"
  using covers_iff_path [OF wf, of ip] same by simp

text \<open>
  Within one address family the trie is a longest-prefix match. When every prefix that
  was inserted has the family of the address looked up, \<open>Lookup\<close> answers nothing exactly
  when no inserted prefix covers the address, and an answer is the metadata of an inserted
  prefix that covers the address and is at least as long as every other one that does.
\<close>

lemma Lookup_longest_prefix_same_family:
  assumes built: "Insert_all lib NewIPTrie entries = Inr t"
    and ip: "To16 ip = Some ip16"
    and fam: "\<forall>(n, v) \<in> set (parsedEntries lib entries).
                (length (NetIP n) = 4 \<or> length (NetIP n) = 16)
                \<and> length (addressBytes (NetIP n)) = length (addressBytes ip)"
  shows "(Lookup t ip = None) = (\<forall>(n, v) \<in> set (parsedEntries lib entries). \<not> covers n ip)"
    and "Lookup t ip = Some v \<Longrightarrow>
         \<exists>n. (n, v) \<in> set (parsedEntries lib entries) \<and> covers n ip
            \<and> (\<forall>(n', v') \<in> set (parsedEntries lib entries).
                  covers n' ip \<longrightarrow> MaskOnes n' \<le> MaskOnes n)"
proof -
  let ?parsed = "parsedEntries lib entries"
  let ?key = "pathOf (addressBytes ip) 0 (8 * length (addressBytes ip))"
  let ?table = "map_of (rev (map (\<lambda>(n, v). (entryPath n, v)) ?parsed))"
  have look: "Lookup t ip = deepest (root t) ?key" using ip by (rule Lookup_deepest)
  have at: "\<And>q. infoAt (root t) q = ?table q"
    by (rule Insert_all_table [OF built])
  have cov: "\<And>n v. (n, v) \<in> set ?parsed \<Longrightarrow>
               covers n ip = (\<exists>m \<le> length ?key. entryPath n = take m ?key)"
  proof -
    fix n v assume mem: "(n, v) \<in> set ?parsed"
    have wf: "length (NetIP n) = 4 \<or> length (NetIP n) = 16"
      using fam [rule_format, OF mem] by simp
    have same: "length (addressBytes (NetIP n)) = length (addressBytes ip)"
      using fam [rule_format, OF mem] by simp
    show "covers n ip = (\<exists>m \<le> length ?key. entryPath n = take m ?key)"
      by (rule covers_iff_key_prefix [OF wf same])
  qed
  have ones: "\<And>n m. m \<le> length ?key \<Longrightarrow> entryPath n = take m ?key \<Longrightarrow> MaskOnes n = m"
  proof -
    fix n m assume "m \<le> length ?key" "entryPath n = take m ?key"
    then have "length (entryPath n) = m" by simp
    then show "MaskOnes n = m" by simp
  qed
  show "(Lookup t ip = None) = (\<forall>(n, v) \<in> set ?parsed. \<not> covers n ip)"
  proof
    assume "Lookup t ip = None"
    then have none: "\<forall>m \<le> length ?key. ?table (take m ?key) = None"
      using look deepest_None [of "root t" ?key] at by simp
    show "\<forall>(n, v) \<in> set ?parsed. \<not> covers n ip"
    proof (clarify)
      fix n v assume mem: "(n, v) \<in> set ?parsed" and "covers n ip"
      then obtain m where "m \<le> length ?key" "entryPath n = take m ?key"
        using cov [OF mem] by blast
      then have "?table (entryPath n) = None" using none by simp
      then show False using table_defined [OF mem] by simp
    qed
  next
    assume nocov: "\<forall>(n, v) \<in> set ?parsed. \<not> covers n ip"
    have "\<forall>m \<le> length ?key. ?table (take m ?key) = None"
    proof (intro allI impI)
      fix m assume m: "m \<le> length ?key"
      show "?table (take m ?key) = None"
      proof (rule ccontr)
        assume "?table (take m ?key) \<noteq> None"
        then obtain v where "?table (take m ?key) = Some v" by auto
        then have "\<exists>n. (n, v) \<in> set ?parsed \<and> entryPath n = take m ?key"
          by (rule table_Some)
        then obtain n where mem: "(n, v) \<in> set ?parsed" and "entryPath n = take m ?key"
          by blast
        then have "covers n ip" using cov [OF mem] m by blast
        then show False using nocov mem by auto
      qed
    qed
    then show "Lookup t ip = None"
      using look deepest_None [of "root t" ?key] at by simp
  qed
  show "\<exists>n. (n, v) \<in> set ?parsed \<and> covers n ip
            \<and> (\<forall>(n', v') \<in> set ?parsed. covers n' ip \<longrightarrow> MaskOnes n' \<le> MaskOnes n)"
    if "Lookup t ip = Some v"
  proof -
    from that have "deepest (root t) ?key = Some v" using look by simp
    then have "\<exists>m \<le> length ?key. infoAt (root t) (take m ?key) = Some v
        \<and> (\<forall>m'. m < m' \<and> m' \<le> length ?key \<longrightarrow> infoAt (root t) (take m' ?key) = None)"
      by (rule deepest_Some)
    then obtain m where m1: "m \<le> length ?key"
      and m2: "infoAt (root t) (take m ?key) = Some v"
      and above: "\<forall>m'. m < m' \<and> m' \<le> length ?key \<longrightarrow> infoAt (root t) (take m' ?key) = None"
      by blast
    from m2 have "?table (take m ?key) = Some v" unfolding at .
    then have "\<exists>n. (n, v) \<in> set ?parsed \<and> entryPath n = take m ?key"
      by (rule table_Some)
    then obtain n where mem: "(n, v) \<in> set ?parsed" and path: "entryPath n = take m ?key"
      by blast
    have "\<exists>k \<le> length ?key. entryPath n = take k ?key"
      using m1 path by (intro exI [of _ m]) simp
    then have c: "covers n ip" unfolding cov [OF mem] .
    have mo: "MaskOnes n = m" using ones [OF m1 path] .
    have best: "MaskOnes n' \<le> MaskOnes n" if mem': "(n', v') \<in> set ?parsed" and c': "covers n' ip"
      for n' v'
    proof -
      from c' have "\<exists>k \<le> length ?key. entryPath n' = take k ?key" unfolding cov [OF mem'] .
      then obtain m' where k1: "m' \<le> length ?key" and k2: "entryPath n' = take m' ?key"
        by blast
      have "?table (entryPath n') \<noteq> None" by (rule table_defined [OF mem'])
      then have defined: "infoAt (root t) (take m' ?key) \<noteq> None" unfolding at k2 .
      have "\<not> m < m'"
      proof
        assume "m < m'"
        then have "infoAt (root t) (take m' ?key) = None" using above k1 by simp
        then show False using defined by simp
      qed
      moreover have "MaskOnes n' = m'" using ones [OF k1 k2] .
      ultimately show ?thesis using mo by simp
    qed
    have "\<forall>(n', v') \<in> set ?parsed. covers n' ip \<longrightarrow> MaskOnes n' \<le> MaskOnes n"
    proof (intro ballI)
      fix e assume e: "e \<in> set ?parsed"
      obtain n' v' where "e = (n', v')" by (cases e)
      then show "case e of (n', v') \<Rightarrow> covers n' ip \<longrightarrow> MaskOnes n' \<le> MaskOnes n"
        using best [of n' v'] e by simp
    qed
    then show ?thesis using mem c by (intro exI [of _ n]) simp
  qed
qed

text \<open>
  Claim C1 at an input where the code departs from it. The AWS dataset is loaded into one
  trie, IPv4 and IPv6 prefixes together, and the trie keeps no trace of the family of a
  prefix. With \<open>10.0.0.0/8\<close> and \<open>2600:1f00::/24\<close> inserted, the IPv4 address
  \<open>38.0.31.7\<close>, which neither prefix covers, is answered with the metadata of the IPv6
  prefix (its first 24 bits are the bytes 0x26, 0x00, 0x1f), and the IPv6 address
  \<open>a00::1\<close>, which neither prefix covers, with the metadata of \<open>10.0.0.0/8\<close>.
\<close>

theorem Lookup_matches_other_family:
  "awsTrie = projr (Insert_all sampleLib NewIPTrie (awsEntries sampleAws))
   \<and> map fst (awsEntries sampleAws) = [''10.0.0.0/8'', ''2600:1f00::/24'']
   \<and> ParseCIDR sampleLib ''10.0.0.0/8'' = Some \<lparr>NetIP = [10, 0, 0, 0], MaskOnes = 8\<rparr>
   \<and> ParseCIDR sampleLib ''2600:1f00::/24''
       = Some \<lparr>NetIP = [38, 0, 31, 0, 0, 0, 0, 0, 0, 0, 0, 0, 0, 0, 0, 0], MaskOnes = 24\<rparr>
   \<and> \<not> covers \<lparr>NetIP = [10, 0, 0, 0], MaskOnes = 8\<rparr> [0, 0, 0, 0, 0, 0, 0, 0, 0, 0, 255, 255, 38, 0, 31, 7]
   \<and> \<not> covers \<lparr>NetIP = [38, 0, 31, 0, 0, 0, 0, 0, 0, 0, 0, 0, 0, 0, 0, 0], MaskOnes = 24\<rparr> [0, 0, 0, 0, 0, 0, 0, 0, 0, 0, 255, 255, 38, 0, 31, 7]
   \<and> Lookup awsTrie [0, 0, 0, 0, 0, 0, 0, 0, 0, 0, 255, 255, 38, 0, 31, 7] = Some 
        \<lparr>InfoProvider = ''AWS'', InfoService = ''AMAZON'', InfoRegion = ''us-west-2'',
          NetworkType = ''us-west-2'', CIDR = ''2600:1f00::/24''\<rparr>
   \<and> \<not> covers \<lparr>NetIP = [10, 0, 0, 0], MaskOnes = 8\<rparr> [10, 0, 0, 0, 0, 0, 0, 0, 0, 0, 0, 0, 0, 0, 0, 1]
   \<and> \<not> covers \<lparr>NetIP = [38, 0, 31, 0, 0, 0, 0, 0, 0, 0, 0, 0, 0, 0, 0, 0], MaskOnes = 24\<rparr>
          [10, 0, 0, 0, 0, 0, 0, 0, 0, 0, 0, 0, 0, 0, 0, 1]
   \<and> Lookup awsTrie [10, 0, 0, 0, 0, 0, 0, 0, 0, 0, 0, 0, 0, 0, 0, 1] = Some 
        \<lparr>InfoProvider = ''AWS'', InfoService = ''EC2'', InfoRegion = ''us-east-1'',
          NetworkType = ''us-east-1'', CIDR = ''10.0.0.0/8''\<rparr>"
  by code_simp

subsection \<open>The provider of an address\<close>

text \<open>
  When every range of the three datasets has the family of the address looked up, the
  answer of \<open>NetMapper.Lookup\<close> is the one of the first provider, in the order AWS, Azure,
  GCP, that has a range covering the address.
\<close>

lemma NetMapper_Lookup_same_family:
  assumes a: "Insert_all lib NewIPTrie awsList = Inr (aws m)"
    and z: "Insert_all lib NewIPTrie azureList = Inr (azure m)"
    and p: "ParseIP lib ipStr = Some ip"
    and ip: "To16 ip = Some ip16"
    and famA: "\<forall>(n, v) \<in> set (parsedEntries lib awsList).
                (length (NetIP n) = 4 \<or> length (NetIP n) = 16)
                \<and> length (addressBytes (NetIP n)) = length (addressBytes ip)"
    and famZ: "\<forall>(n, v) \<in> set (parsedEntries lib azureList).
                (length (NetIP n) = 4 \<or> length (NetIP n) = 16)
                \<and> length (addressBytes (NetIP n)) = length (addressBytes ip)"
  shows "NetMapper_Lookup lib m ipStr =
           (if \<exists>(n, v) \<in> set (parsedEntries lib awsList). covers n ip then Lookup (aws m) ip
            else if \<exists>(n, v) \<in> set (parsedEntries lib azureList). covers n ip then Lookup (azure m) ip
            else Lookup (gcp m) ip)"
proof -
  have A: "(Lookup (aws m) ip = None) = (\<forall>(n, v) \<in> set (parsedEntries lib awsList). \<not> covers n ip)"
    by (rule Lookup_longest_prefix_same_family(1) [OF a ip famA])
  have Z: "(Lookup (azure m) ip = None) = (\<forall>(n, v) \<in> set (parsedEntries lib azureList). \<not> covers n ip)"
    by (rule Lookup_longest_prefix_same_family(1) [OF z ip famZ])
  show ?thesis
  proof (cases "Lookup (aws m) ip")
    case (Some v)
    then have "\<exists>(n, v) \<in> set (parsedEntries lib awsList). covers n ip" using A by auto
    then show ?thesis using Some p by (simp add: NetMapper_Lookup_def)
  next
    case None
    then have noA: "\<not> (\<exists>(n, v) \<in> set (parsedEntries lib awsList). covers n ip)" using A by auto
    show ?thesis
    proof (cases "Lookup (azure m) ip")
      case (Some v)
      then have "\<exists>(n, v) \<in> set (parsedEntries lib azureList). covers n ip" using Z by auto
      then show ?thesis using Some None noA p by (simp add: NetMapper_Lookup_def)
    next
      case azNone: None
      then have noZ: "\<not> (\<exists>(n, v) \<in> set (parsedEntries lib azureList). covers n ip)" using Z by auto
      show ?thesis using azNone None noA noZ p
        by (simp add: NetMapper_Lookup_def split: option.splits)
    qed
  qed
qed

text \<open>
  Claim C8 at an input where the code departs from it. The directory \<open>overlap\<close> holds the
  AWS ranges \<open>10.0.0.0/8\<close> and \<open>2600:1f00::/24\<close>, the Azure range \<open>38.0.0.0/8\<close> and the GCP
  range \<open>38.0.0.0/16\<close>. The address \<open>38.0.31.7\<close> is covered by the Azure range and by the
  GCP range and by no AWS range, so the claim has the answer be the Azure metadata. The
  AWS trie is asked first and matches the address against the IPv6 prefix
  \<open>2600:1f00::/24\<close>, whose first 24 bits are the bytes of \<open>38.0.31\<close>: the answer is the AWS
  metadata of that prefix. The tries keep IPv4 and IPv6 prefixes together with no record
  of the family, which is the defect shown for the single trie above.
\<close>

theorem NetMapper_Lookup_answers_uncovering_AWS:
  "LoadFromDirectory sampleLib sampleFiles NewNetMapper ''overlap'' = Inr (overlapMapper, None)
   \<and> awsFile sampleFiles (''overlap'' @ ''/aws_cloud.json'') = Document sampleAws
   \<and> azureFile sampleFiles (''overlap'' @ ''/azure_cloud.json'') = Document overlapAzure
   \<and> gcpFile sampleFiles (''overlap'' @ ''/gcp_cloud.json'') = Document overlapGcp
   \<and> map fst (awsEntries sampleAws) = [''10.0.0.0/8'', ''2600:1f00::/24'']
   \<and> map fst (azureEntries overlapAzure) = [''38.0.0.0/8'']
   \<and> map fst (gcpEntries overlapGcp) = [''38.0.0.0/16'']
   \<and> ParseCIDR sampleLib ''10.0.0.0/8'' = Some \<lparr>NetIP = [10, 0, 0, 0], MaskOnes = 8\<rparr>
   \<and> ParseCIDR sampleLib ''2600:1f00::/24''
       = Some \<lparr>NetIP = [38, 0, 31, 0, 0, 0, 0, 0, 0, 0, 0, 0, 0, 0, 0, 0], MaskOnes = 24\<rparr>
   \<and> ParseCIDR sampleLib ''38.0.0.0/8'' = Some \<lparr>NetIP = [38, 0, 0, 0], MaskOnes = 8\<rparr>
   \<and> ParseCIDR sampleLib ''38.0.0.0/16'' = Some \<lparr>NetIP = [38, 0, 0, 0], MaskOnes = 16\<rparr>
   \<and> ParseIP sampleLib ''38.0.31.7'' = Some [0, 0, 0, 0, 0, 0, 0, 0, 0, 0, 255, 255, 38, 0, 31, 7]
   \<and> \<not> covers \<lparr>NetIP = [10, 0, 0, 0], MaskOnes = 8\<rparr> [0, 0, 0, 0, 0, 0, 0, 0, 0, 0, 255, 255, 38, 0, 31, 7]
   \<and> \<not> covers \<lparr>NetIP = [38, 0, 31, 0, 0, 0, 0, 0, 0, 0, 0, 0, 0, 0, 0, 0], MaskOnes = 24\<rparr>
          [0, 0, 0, 0, 0, 0, 0, 0, 0, 0, 255, 255, 38, 0, 31, 7]
   \<and> covers \<lparr>NetIP = [38, 0, 0, 0], MaskOnes = 8\<rparr> [0, 0, 0, 0, 0, 0, 0, 0, 0, 0, 255, 255, 38, 0, 31, 7]
   \<and> covers \<lparr>NetIP = [38, 0, 0, 0], MaskOnes = 16\<rparr> [0, 0, 0, 0, 0, 0, 0, 0, 0, 0, 255, 255, 38, 0, 31, 7]
   \<and> Lookup (azure overlapMapper) [0, 0, 0, 0, 0, 0, 0, 0, 0, 0, 255, 255, 38, 0, 31, 7] = Some
        \<lparr>InfoProvider = ''Azure'', InfoService = ''AzureCloud'', InfoRegion = ''eastus'',
          NetworkType = ''Azure'', CIDR = ''38.0.0.0/8''\<rparr>
   \<and> Lookup (gcp overlapMapper) [0, 0, 0, 0, 0, 0, 0, 0, 0, 0, 255, 255, 38, 0, 31, 7] = Some
        \<lparr>InfoProvider = ''GCP'', InfoService = ''Google Cloud'', InfoRegion = ''us-east4'',
          NetworkType = ''Google Cloud'', CIDR = ''38.0.0.0/16''\<rparr>
   \<and> NetMapper_Lookup sampleLib overlapMapper ''38.0.31.7'' = Some
        \<lparr>InfoProvider = ''AWS'', InfoService = ''AMAZON'', InfoRegion = ''us-west-2'',
          NetworkType = ''us-west-2'', CIDR = ''2600:1f00::/24''\<rparr>"
  by code_simp

end
